theory Spec2Isabelle
  imports Main "HOL-Library.Char_ord"
begin

section \<open>Symbols, exceptions and warnings\<close>

text \<open>
  A symbol is a one-character Python string, modelled as a \<^typ>\<open>char\<close>; text is ASCII,
  so \<open>c.isalpha() and c.isupper()\<close> holds exactly for the letters A to Z and
  \<open>c.isnumeric()\<close> exactly for the digits 0 to 9.  A raised exception is the \<open>Inl\<close>
  branch of a sum; a method that mutates its object returns the object next to its result,
  also when it raises, since a Python exception leaves the mutations made before it.
\<close>

datatype error = ValueError | TypeError | AttributeError | IndexError | StopIteration | UnboundLocalError

datatype warning = AlreadyConnected | LimitReached

definition py_ord :: "char \<Rightarrow> int" where
  "py_ord c = of_char c"

definition py_chr :: "int \<Rightarrow> char" where
  "py_chr n = char_of n"

definition is_upper_alpha :: "char \<Rightarrow> bool" where
  "is_upper_alpha c = (65 \<le> py_ord c \<and> py_ord c \<le> 90)"

definition is_numeric :: "char \<Rightarrow> bool" where
  "is_numeric c = (48 \<le> py_ord c \<and> py_ord c \<le> 57)"

text \<open>\<open>s.isalpha() and s.isupper()\<close> on a string: false on the empty string.\<close>

definition str_upper_alpha :: "string \<Rightarrow> bool" where
  "str_upper_alpha s = (s \<noteq> [] \<and> list_all is_upper_alpha s)"

section \<open>enigma.py: PlugLead\<close>

record PlugLead =
  pair :: "char set"
  first_letter :: char
  last_letter :: char

text \<open>\<open>PlugLead.__init__\<close>; \<open>strip\<close> changes nothing on a string of letters.\<close>

definition PlugLead_init :: "string \<Rightarrow> error + PlugLead" where
  "PlugLead_init mapping =
     (if \<not> str_upper_alpha mapping then Inl ValueError
      else if length mapping \<noteq> 2 then Inl ValueError
      else if mapping ! 0 = mapping ! 1 then Inl ValueError
      else Inr \<lparr>pair = {mapping ! 0, mapping ! 1},
                first_letter = min (mapping ! 0) (mapping ! 1),
                last_letter = max (mapping ! 0) (mapping ! 1)\<rparr>)"

text \<open>\<open>PlugLead.__eq__\<close>: two leads are equal when their pairs are.\<close>

definition PlugLead_eq :: "PlugLead \<Rightarrow> PlugLead \<Rightarrow> bool" where
  "PlugLead_eq a b = (pair a = pair b)"

text \<open>\<open>next(iter(s))\<close>: the element of a set, StopIteration when there is none.  The sets
  it is applied to have at most one element.\<close>

definition next_iter :: "char set \<Rightarrow> error + char" where
  "next_iter s = (if s = {} then Inl StopIteration else Inr (Min s))"

definition PlugLead_encode :: "PlugLead \<Rightarrow> char \<Rightarrow> error + char" where
  "PlugLead_encode pl character =
     (if \<not> is_upper_alpha character then Inl ValueError
      else if character \<in> pair pl then next_iter (pair pl - {character})
      else Inr character)"

section \<open>enigma.py: Plugboard\<close>

text \<open>
  \<open>__connections\<close> is a Python set of leads.  Its iteration order is not fixed by the
  language, so the model keeps the leads in a list, in some order, without two equal leads;
  the properties below hold for every order.
\<close>

record Plugboard =
  connections :: "PlugLead list"
  occupied_letters :: "char set"

definition connection_limit :: nat where
  "connection_limit = 10"

definition lead_in :: "PlugLead \<Rightarrow> PlugLead list \<Rightarrow> bool" where
  "lead_in pl cs = list_ex (PlugLead_eq pl) cs"

text \<open>
  \<open>Plugboard.add\<close>.  The message of the first \<open>raise\<close> reads \<open>pl.__first_letter\<close> inside
  class \<open>Plugboard\<close>; Python mangles the name to \<open>pl._Plugboard__first_letter\<close>, which a
  lead does not have, so building the message raises AttributeError.  On success the result
  is the list of warnings issued.
\<close>

definition Plugboard_add :: "Plugboard \<Rightarrow> PlugLead \<Rightarrow> (error + warning list) \<times> Plugboard" where
  "Plugboard_add pb pl =
     (if first_letter pl \<in> occupied_letters pb \<and> last_letter pl \<in> occupied_letters pb
        then (Inl AttributeError, pb)
      else if first_letter pl \<in> occupied_letters pb then (Inl ValueError, pb)
      else if last_letter pl \<in> occupied_letters pb then (Inl ValueError, pb)
      else
        (let w = (if lead_in pl (connections pb) then [AlreadyConnected] else [])
         in if length (connections pb) \<ge> connection_limit
            then (Inr (w @ [LimitReached]), pb)
            else (Inr w,
                  pb\<lparr>connections :=
                        (if lead_in pl (connections pb) then connections pb
                         else connections pb @ [pl]),
                      occupied_letters := occupied_letters pb \<union> pair pl\<rparr>)))"

definition Plugboard_remove :: "Plugboard \<Rightarrow> PlugLead \<Rightarrow> (error + unit) \<times> Plugboard" where
  "Plugboard_remove pb pl =
     (if lead_in pl (connections pb)
      then (Inr (), pb\<lparr>connections := filter (\<lambda>x. \<not> PlugLead_eq pl x) (connections pb)\<rparr>)
      else (Inl ValueError, pb))"

text \<open>The loop \<open>for lead in leads: self.add(PlugLead(lead))\<close> of \<open>__init__\<close> and \<open>reset\<close>.\<close>

fun add_leads :: "Plugboard \<Rightarrow> string list \<Rightarrow> (error + unit) \<times> Plugboard" where
  "add_leads pb [] = (Inr (), pb)"
| "add_leads pb (lead # leads) =
     (case PlugLead_init lead of
        Inl e \<Rightarrow> (Inl e, pb)
      | Inr pl \<Rightarrow>
          (case Plugboard_add pb pl of
             (Inl e, pb') \<Rightarrow> (Inl e, pb')
           | (Inr _, pb') \<Rightarrow> add_leads pb' leads))"

definition Plugboard_reset :: "Plugboard \<Rightarrow> string list option \<Rightarrow> (error + unit) \<times> Plugboard" where
  "Plugboard_reset pb leads =
     (let pb' = pb\<lparr>connections := []\<rparr>
      in case leads of None \<Rightarrow> (Inr (), pb') | Some ls \<Rightarrow> add_leads pb' ls)"

definition Plugboard_init :: "string list option \<Rightarrow> error + Plugboard" where
  "Plugboard_init leads =
     (let pb = \<lparr>connections = [], occupied_letters = {}\<rparr>
      in case leads of
           None \<Rightarrow> Inr pb
         | Some ls \<Rightarrow> (case add_leads pb ls of (Inl e, _) \<Rightarrow> Inl e | (Inr _, pb') \<Rightarrow> Inr pb'))"

text \<open>
  \<open>Plugboard.encode\<close>: the loop over the leads with its counter \<open>i\<close>; \<open>n\<close> is
  \<open>len(self.__connections)\<close>.  A loop that ends without returning reaches the final
  \<open>raise ValueError\<close>.
\<close>

fun Plugboard_encode_loop :: "PlugLead list \<Rightarrow> nat \<Rightarrow> nat \<Rightarrow> char \<Rightarrow> error + char" where
  "Plugboard_encode_loop [] i n character = Inl ValueError"
| "Plugboard_encode_loop (pl # pls) i n character =
     (if character \<in> pair pl \<or> i + 1 = n then PlugLead_encode pl character
      else Plugboard_encode_loop pls (i + 1) n character)"

definition Plugboard_encode :: "Plugboard \<Rightarrow> char \<Rightarrow> error + char" where
  "Plugboard_encode pb character =
     Plugboard_encode_loop (connections pb) 0 (length (connections pb)) character"

section \<open>enigma.py: Rotor\<close>

text \<open>Python list indexing \<open>xs[i]\<close>: a negative index counts from the end, an index out
  of range raises IndexError.\<close>

definition py_getitem :: "'a list \<Rightarrow> int \<Rightarrow> error + 'a" where
  "py_getitem xs i =
     (if 0 \<le> i \<and> i < int (length xs) then Inr (xs ! nat i)
      else if i < 0 \<and> - i \<le> int (length xs) then Inr (xs ! nat (int (length xs) + i))
      else Inl IndexError)"

text \<open>\<open>xs.index(x)\<close>: the first position of \<open>x\<close>, ValueError when it is absent.\<close>

definition list_index :: "'a list \<Rightarrow> 'a \<Rightarrow> error + nat" where
  "list_index xs x =
     (if x \<in> set xs then Inr (length (takeWhile (\<lambda>y. y \<noteq> x) xs)) else Inl ValueError)"

text \<open>
  The argument of \<open>Rotor.__init__\<close>: a string (the name of a historical rotor), a tuple
  of a wiring list and a notch string, or a bare wiring list.  A notch is kept as the string
  it was given as; \<open>position == notch\<close> compares the one-character position with it.
\<close>

datatype rotor_type = Named string | WithNotch "char list" string | NoNotch "char list"

record Rotor =
  ring :: int
  position :: char
  mapping :: "char list"
  notch :: "string option"
  is_reflector :: bool

text \<open>The wiring tables of \<open>Rotor.__init__\<close>: mapping, notch, reflector flag.\<close>

definition named_rotor :: "string \<Rightarrow> (char list \<times> string option \<times> bool) option" where
  "named_rotor n =
     (if n = ''I'' then Some (''EKMFLGDQVZNTOWYHXUSPAIBRCJ'', Some ''Q'', False)
      else if n = ''II'' then Some (''AJDKSIRUXBLHWTMCQGZNPYFVOE'', Some ''E'', False)
      else if n = ''III'' then Some (''BDFHJLCPRTXVZNYEIWGAKMUSQO'', Some ''V'', False)
      else if n = ''IV'' then Some (''ESOVPZJAYQUIRHXLNFTGKDCMWB'', Some ''J'', False)
      else if n = ''V'' then Some (''VZBRGITYUPSDNHLXAWMJQOFECK'', Some ''Z'', False)
      else if n = ''Beta'' then Some (''LEYJVCNIXWPBQMDRTAKZGFUHOS'', None, False)
      else if n = ''Gamma'' then Some (''FSOKANUERHMBTIYCWLQPZXVGJD'', None, False)
      else if n = ''A'' then Some (''EJMZALYXVBWFCRQUONTSPIKHGD'', None, True)
      else if n = ''B'' then Some (''YRUHQSLDPXNGOKMIEBFZCWVJAT'', None, True)
      else if n = ''C'' then Some (''FVPJIAOYEDRZXWGCTKUQSBNMHL'', None, True)
      else None)"

text \<open>
  \<open>Rotor.__init__\<close>.  The fields \<open>name\<close> and \<open>double_step\<close> and the class counters that
  number the custom rotors are written but never read by the operations below, and are
  left out.
\<close>

definition Rotor_init :: "rotor_type \<Rightarrow> int \<Rightarrow> char \<Rightarrow> error + Rotor" where
  "Rotor_init rt rg pos =
     (if rg < 1 \<or> rg > 26 then Inl ValueError
      else if \<not> is_upper_alpha pos then Inl ValueError
      else case rt of
             Named n \<Rightarrow>
               (case named_rotor n of
                  Some (m, nt, rf) \<Rightarrow>
                    Inr \<lparr>ring = rg, position = pos, mapping = m, notch = nt, is_reflector = rf\<rparr>
                | None \<Rightarrow> Inl ValueError)
           | WithNotch m nt \<Rightarrow>
               (if length m = 26 \<and> list_all is_upper_alpha m \<and> str_upper_alpha nt \<and> length nt = 1
                then Inr \<lparr>ring = rg, position = pos, mapping = m, notch = Some nt,
                          is_reflector = False\<rparr>
                else Inl ValueError)
           | NoNotch m \<Rightarrow>
               (if length m = 26
                then Inr \<lparr>ring = rg, position = pos, mapping = m, notch = None,
                          is_reflector = False\<rparr>
                else Inl ValueError))"

definition advance_position :: "'a Rotor_scheme \<Rightarrow> 'a Rotor_scheme" where
  "advance_position r =
     (if position r = CHR ''Z'' then r\<lparr>position := CHR ''A''\<rparr>
      else r\<lparr>position := py_chr (py_ord (position r) + 1)\<rparr>)"

definition check_notch :: "'a Rotor_scheme \<Rightarrow> bool" where
  "check_notch r = (Some [position r] = notch r)"

definition encode_right_to_left :: "'a Rotor_scheme \<Rightarrow> char \<Rightarrow> error + char" where
  "encode_right_to_left r c =
     (if \<not> is_upper_alpha c then Inl ValueError
      else py_getitem (mapping r) (py_ord c - py_ord CHR ''A''))"

definition encode_left_to_right :: "'a Rotor_scheme \<Rightarrow> char \<Rightarrow> error + char" where
  "encode_left_to_right r c =
     (if \<not> is_upper_alpha c then Inl ValueError
      else case list_index (mapping r) c of
             Inl e \<Rightarrow> Inl e
           | Inr j \<Rightarrow> Inr (py_chr (int j + py_ord CHR ''A'')))"

definition rotor_offset :: "'a Rotor_scheme \<Rightarrow> int" where
  "rotor_offset r = py_ord (position r) - py_ord CHR ''A'' - ring r + 1"

definition encode_offset_rtl :: "'a Rotor_scheme \<Rightarrow> char \<Rightarrow> error + char" where
  "encode_offset_rtl r c =
     (let offset = rotor_offset r;
          offset_char = py_chr (((py_ord c - 65 + offset) mod 26) + 65)
      in case encode_right_to_left r offset_char of
           Inl e \<Rightarrow> Inl e
         | Inr encode_char \<Rightarrow> Inr (py_chr (((py_ord encode_char - 65 - offset) mod 26) + 65)))"

definition encode_offset_ltr :: "'a Rotor_scheme \<Rightarrow> char \<Rightarrow> error + char" where
  "encode_offset_ltr r c =
     (let offset = rotor_offset r;
          offset_char = py_chr (((py_ord c - 65 + offset) mod 26) + 65)
      in case encode_left_to_right r offset_char of
           Inl e \<Rightarrow> Inl e
         | Inr encode_char \<Rightarrow> Inr (py_chr (((py_ord encode_char - 65 - offset) mod 26) + 65)))"

text \<open>\<open>[chr(65 + i) for i in range(26)]\<close>\<close>

definition abc :: "char list" where
  "abc = map (\<lambda>i. py_chr (65 + int i)) [0..<26]"

text \<open>
  \<open>Rotor.valid_reflector\<close>.  \<open>dic\<close> is the dictionary built from \<open>zip(abc, mapping)\<close>;
  its keys are distinct, so it is this list of pairs, in this order.  The loop visits the
  keys in order; \<open>dic[key]\<close> is the value paired with the key, \<open>list(dic.values())\<close> and
  \<open>list(dic.keys())\<close> are the two projections, and \<open>index\<close> raises ValueError for a key
  that is no value.
\<close>

fun valid_reflector_loop :: "(char \<times> char) list \<Rightarrow> (char \<times> char) list \<Rightarrow> error + bool" where
  "valid_reflector_loop dic [] = Inr True"
| "valid_reflector_loop dic ((key, v) # rest) =
     (case list_index (map snd dic) key of
        Inl e \<Rightarrow> Inl e
      | Inr j \<Rightarrow>
          (if v \<noteq> map fst dic ! j then Inr False else valid_reflector_loop dic rest))"

definition valid_reflector :: "'a Rotor_scheme \<Rightarrow> error + bool" where
  "valid_reflector r =
     (if notch r \<noteq> None then Inr False
      else (let dic = zip abc (mapping r) in valid_reflector_loop dic dic))"

section \<open>enigma.py: Commercial_enigma\<close>

record 'r Commercial_enigma =
  rotors :: "'r list"
  ring_length :: int
  position_length :: int

text \<open>\<open>[Rotor(input) for input in rotors]\<close>: the first rotor that is refused raises.\<close>

fun Rotor_list_init :: "rotor_type list \<Rightarrow> error + Rotor list" where
  "Rotor_list_init [] = Inr []"
| "Rotor_list_init (rt # rts) =
     (case Rotor_init rt 1 CHR ''A'' of
        Inl e \<Rightarrow> Inl e
      | Inr r \<Rightarrow> (case Rotor_list_init rts of Inl e \<Rightarrow> Inl e | Inr rs \<Rightarrow> Inr (r # rs)))"

text \<open>The loops of \<open>ring_settings\<close> and \<open>position_settings\<close>; \<open>i\<close> is the loop index.\<close>

fun ring_settings_loop :: "Rotor list \<Rightarrow> int list \<Rightarrow> nat \<Rightarrow> (error + unit) \<times> Rotor list" where
  "ring_settings_loop rs [] i = (Inr (), rs)"
| "ring_settings_loop rs (rg # rings) i =
     (if rg < 1 \<or> rg > 26 then (Inl ValueError, rs)
      else ring_settings_loop (rs[i + 1 := (rs ! (i + 1))\<lparr>ring := rg\<rparr>]) rings (i + 1))"

definition ring_settings ::
  "Rotor Commercial_enigma \<Rightarrow> int list \<Rightarrow> (error + unit) \<times> Rotor Commercial_enigma" where
  "ring_settings m rings =
     (if int (length rings) \<noteq> int (length (rotors m)) - 1 then (Inl ValueError, m)
      else case ring_settings_loop (rotors m) rings 0 of
             (res, rs) \<Rightarrow> (res, m\<lparr>rotors := rs\<rparr>))"

fun position_settings_loop :: "Rotor list \<Rightarrow> char list \<Rightarrow> nat \<Rightarrow> (error + unit) \<times> Rotor list" where
  "position_settings_loop rs [] i = (Inr (), rs)"
| "position_settings_loop rs (p # positions) i =
     (if \<not> is_upper_alpha p then (Inl ValueError, rs)
      else position_settings_loop (rs[i + 1 := (rs ! (i + 1))\<lparr>position := p\<rparr>]) positions (i + 1))"

definition position_settings ::
  "Rotor Commercial_enigma \<Rightarrow> char list \<Rightarrow> (error + unit) \<times> Rotor Commercial_enigma" where
  "position_settings m positions =
     (if int (length positions) \<noteq> int (length (rotors m)) - 1 then (Inl ValueError, m)
      else case position_settings_loop (rotors m) positions 0 of
             (res, rs) \<Rightarrow> (res, m\<lparr>rotors := rs\<rparr>))"

text \<open>The reflector check of \<open>Commercial_enigma.__init__\<close> on the rotor in position 0.\<close>

definition check_reflector :: "Rotor list \<Rightarrow> error + Rotor list" where
  "check_reflector rs =
     (if \<not> is_reflector (rs ! 0)
      then (case valid_reflector (rs ! 0) of
              Inl e \<Rightarrow> Inl e
            | Inr ok \<Rightarrow>
                if ok then Inr (rs[0 := (rs ! 0)\<lparr>is_reflector := True\<rparr>]) else Inl ValueError)
      else Inr rs)"

definition Commercial_enigma_init ::
  "rotor_type list \<Rightarrow> int list option \<Rightarrow> char list option \<Rightarrow> error + Rotor Commercial_enigma" where
  "Commercial_enigma_init rts rings positions =
     (if length rts \<noteq> 4 \<and> length rts \<noteq> 5 then Inl ValueError
      else case Rotor_list_init rts of
        Inl e \<Rightarrow> Inl e
      | Inr rs0 \<Rightarrow>
        (case check_reflector rs0 of
           Inl e \<Rightarrow> Inl e
         | Inr rs \<Rightarrow>
           if list_ex is_reflector (tl rs) then Inl ValueError
           else
             (let m = \<lparr>rotors = rs, ring_length = int (length rts) - 1,
                       position_length = int (length rts) - 1\<rparr>
              in case (case rings of None \<Rightarrow> (Inr (), m) | Some rgs \<Rightarrow> ring_settings m rgs) of
                   (Inl e, _) \<Rightarrow> Inl e
                 | (Inr _, m1) \<Rightarrow>
                     (case (case positions of None \<Rightarrow> (Inr (), m1)
                                            | Some ps \<Rightarrow> position_settings m1 ps) of
                        (Inl e, _) \<Rightarrow> Inl e
                      | (Inr _, m2) \<Rightarrow> Inr m2))))"

text \<open>
  \<open>Commercial_enigma.rotate\<close>.  \<open>rotors[-1]\<close>, \<open>rotors[-2]\<close> and \<open>rotors[-3]\<close> are the
  rotors at \<open>n - 1\<close>, \<open>n - 2\<close> and \<open>n - 3\<close>; on a list too short for one of them the index
  raises IndexError at the point where the source reads it.
\<close>

definition Commercial_enigma_rotate :: "Rotor Commercial_enigma \<Rightarrow> (error + unit) \<times> Rotor Commercial_enigma" where
  "Commercial_enigma_rotate m =
     (let rs = rotors m; n = length rs
      in if n < 2 then (Inl IndexError, m)
         else
           (let rot1 = (Some [position (rs ! (n - 1))] = notch (rs ! (n - 1)));
                rot2 = (Some [position (rs ! (n - 2))] = notch (rs ! (n - 2)));
                rs1 = rs[n - 1 := advance_position (rs ! (n - 1))];
                rs2 = (if rot1 then rs1[n - 2 := advance_position (rs1 ! (n - 2))] else rs1)
            in if rot2
               then (let rs3 = (if \<not> rot1 then rs2[n - 2 := advance_position (rs2 ! (n - 2))]
                                else rs2)
                     in if n < 3 then (Inl IndexError, m\<lparr>rotors := rs3\<rparr>)
                        else (Inr (), m\<lparr>rotors := rs3[n - 3 := advance_position (rs3 ! (n - 3))]\<rparr>))
               else (Inr (), m\<lparr>rotors := rs2\<rparr>)))"

text \<open>
  The two loops of \<open>Commercial_enigma.encode\<close>.  \<open>for i in range(-1, -len-1, -1)\<close> visits
  the rotors from the last to the first, that is the reversed list;
  \<open>for i in range(1, len)\<close> visits the list without its head.
\<close>

fun pass_rtl :: "Rotor list \<Rightarrow> char \<Rightarrow> error + char" where
  "pass_rtl [] c = Inr c"
| "pass_rtl (r # rs) c =
     (case encode_offset_rtl r c of Inl e \<Rightarrow> Inl e | Inr d \<Rightarrow> pass_rtl rs d)"

fun pass_ltr :: "Rotor list \<Rightarrow> char \<Rightarrow> error + char" where
  "pass_ltr [] c = Inr c"
| "pass_ltr (r # rs) c =
     (case encode_offset_ltr r c of Inl e \<Rightarrow> Inl e | Inr d \<Rightarrow> pass_ltr rs d)"

definition Commercial_enigma_encode ::
  "Rotor Commercial_enigma \<Rightarrow> char \<Rightarrow> (error + char) \<times> Rotor Commercial_enigma" where
  "Commercial_enigma_encode m c =
     (case Commercial_enigma_rotate m of
        (Inl e, m') \<Rightarrow> (Inl e, m')
      | (Inr _, m') \<Rightarrow>
          (case pass_rtl (rev (rotors m')) c of
             Inl e \<Rightarrow> (Inl e, m')
           | Inr c1 \<Rightarrow>
               (case pass_ltr (tl (rotors m')) c1 of
                  Inl e \<Rightarrow> (Inl e, m')
                | Inr c2 \<Rightarrow> (Inr c2, m'))))"

text \<open>\<open>encode_string\<close>: \<open>out\<close> is the string built so far.\<close>

fun Commercial_enigma_encode_loop ::
  "Rotor Commercial_enigma \<Rightarrow> string \<Rightarrow> string \<Rightarrow> (error + string) \<times> Rotor Commercial_enigma" where
  "Commercial_enigma_encode_loop m out [] = (Inr out, m)"
| "Commercial_enigma_encode_loop m out (c # cs) =
     (case Commercial_enigma_encode m c of
        (Inl e, m') \<Rightarrow> (Inl e, m')
      | (Inr d, m') \<Rightarrow> Commercial_enigma_encode_loop m' (out @ [d]) cs)"

definition Commercial_enigma_encode_string ::
  "Rotor Commercial_enigma \<Rightarrow> string \<Rightarrow> (error + string) \<times> Rotor Commercial_enigma" where
  "Commercial_enigma_encode_string m s = Commercial_enigma_encode_loop m [] s"

text \<open>\<open>len(x)\<close> on an int: Python raises TypeError, an int has no length.\<close>

definition len_of_int :: "int \<Rightarrow> error + int" where
  "len_of_int x = Inl TypeError"

text \<open>
  \<open>Commercial_enigma.swap_rotors\<close>.  In \<open>a or b\<close> the operand \<open>b\<close> is evaluated only when
  \<open>a\<close> is false; each operand here starts with a \<open>len\<close> of an int attribute.
\<close>

definition swap_rotors ::
  "Rotor Commercial_enigma \<Rightarrow> rotor_type list \<Rightarrow> (error + unit) \<times> Rotor Commercial_enigma" where
  "swap_rotors m rts =
     (if length rts \<noteq> 4 \<and> length rts \<noteq> 5 then (Inl ValueError, m)
      else case len_of_int (ring_length m) of
        Inl e \<Rightarrow> (Inl e, m)
      | Inr l1 \<Rightarrow>
          if int (length rts) \<noteq> l1 + 1 then (Inl ValueError, m)
          else (case len_of_int (position_length m) of
                  Inl e \<Rightarrow> (Inl e, m)
                | Inr l2 \<Rightarrow>
                    if int (length rts) \<noteq> l2 + 1 then (Inl ValueError, m)
                    else (case Rotor_list_init rts of
                            Inl e \<Rightarrow> (Inl e, m)
                          | Inr rs \<Rightarrow> (Inr (), m\<lparr>rotors := rs\<rparr>))))"

section \<open>enigma.py: Enigma\<close>

text \<open>The record is generic in the rotor type, so that \<open>AdvancedEnigma\<close>, which has the
  same two attributes over another rotor class, can extend it.\<close>

record 'r Enigma =
  ce :: "'r Commercial_enigma"
  pb :: "Plugboard option"

definition Enigma_init ::
  "rotor_type list \<Rightarrow> int list option \<Rightarrow> char list option \<Rightarrow> string list option \<Rightarrow> error + Rotor Enigma" where
  "Enigma_init rts rings positions plugboard =
     (case Commercial_enigma_init rts rings positions of
        Inl e \<Rightarrow> Inl e
      | Inr m \<Rightarrow>
          (case plugboard of
             None \<Rightarrow> Inr \<lparr>ce = m, pb = None\<rparr>
           | Some leads \<Rightarrow>
               (case Plugboard_init (Some leads) of
                  Inl e \<Rightarrow> Inl e
                | Inr b \<Rightarrow> Inr \<lparr>ce = m, pb = Some b\<rparr>)))"

definition Enigma_encode :: "Rotor Enigma \<Rightarrow> char \<Rightarrow> (error + char) \<times> Rotor Enigma" where
  "Enigma_encode en c =
     (case pb en of
        None \<Rightarrow> (case Commercial_enigma_encode (ce en) c of (res, m') \<Rightarrow> (res, en\<lparr>ce := m'\<rparr>))
      | Some b \<Rightarrow>
          (case Plugboard_encode b c of
             Inl e \<Rightarrow> (Inl e, en)
           | Inr c1 \<Rightarrow>
               (case Commercial_enigma_encode (ce en) c1 of
                  (Inl e, m') \<Rightarrow> (Inl e, en\<lparr>ce := m'\<rparr>)
                | (Inr c2, m') \<Rightarrow>
                    (case Plugboard_encode b c2 of
                       Inl e \<Rightarrow> (Inl e, en\<lparr>ce := m'\<rparr>)
                     | Inr c3 \<Rightarrow> (Inr c3, en\<lparr>ce := m'\<rparr>)))))"

fun Enigma_encode_loop :: "Rotor Enigma \<Rightarrow> string \<Rightarrow> string \<Rightarrow> (error + string) \<times> Rotor Enigma" where
  "Enigma_encode_loop en out [] = (Inr out, en)"
| "Enigma_encode_loop en out (c # cs) =
     (case Enigma_encode en c of
        (Inl e, en') \<Rightarrow> (Inl e, en')
      | (Inr d, en') \<Rightarrow> Enigma_encode_loop en' (out @ [d]) cs)"

definition Enigma_encode_string :: "Rotor Enigma \<Rightarrow> string \<Rightarrow> (error + string) \<times> Rotor Enigma" where
  "Enigma_encode_string en s = Enigma_encode_loop en [] s"

section \<open>EnigmaAdvanced.py: AdvancedPlugLead and AdvancedPlugboard\<close>

text \<open>
  The advanced lead and board have the attributes of the classic ones and are kept in the
  same records.  \<open>AdvancedPlugLead.__init__\<close> tests
  \<open>not (char.isupper() or char.isalpha() or char.isnumeric)\<close>; the last operand is the
  method itself, not a call, and is always true, so the loop never raises.  After that the
  string is stripped of the white space around it.
\<close>

definition is_space :: "char \<Rightarrow> bool" where
  "is_space c = (py_ord c \<in> {9, 10, 11, 12, 13, 28, 29, 30, 31, 32})"

definition py_strip :: "string \<Rightarrow> string" where
  "py_strip s = rev (dropWhile is_space (rev (dropWhile is_space s)))"

definition str_numeric :: "string \<Rightarrow> bool" where
  "str_numeric s = (s \<noteq> [] \<and> list_all is_numeric s)"

definition is_upper_or_numeric :: "char \<Rightarrow> bool" where
  "is_upper_or_numeric c = (is_upper_alpha c \<or> is_numeric c)"

definition AdvancedPlugLead_init :: "string \<Rightarrow> error + PlugLead" where
  "AdvancedPlugLead_init mapping0 =
     (let mapping = py_strip mapping0
      in if length mapping \<noteq> 2 then Inl ValueError
         else if mapping ! 0 = mapping ! 1 then Inl ValueError
         else Inr \<lparr>pair = {mapping ! 0, mapping ! 1},
                   first_letter = min (mapping ! 0) (mapping ! 1),
                   last_letter = max (mapping ! 0) (mapping ! 1)\<rparr>)"

definition AdvancedPlugLead_encode :: "PlugLead \<Rightarrow> char \<Rightarrow> error + char" where
  "AdvancedPlugLead_encode pl character =
     (if \<not> is_upper_or_numeric character then Inl ValueError
      else if character \<in> pair pl then next_iter (pair pl - {character})
      else Inr character)"

definition advanced_connection_limit :: nat where
  "advanced_connection_limit = 18"

text \<open>\<open>AdvancedPlugboard.add\<close>: here the three messages read existing attributes, and
  each of the three branches raises ValueError.\<close>

definition AdvancedPlugboard_add :: "Plugboard \<Rightarrow> PlugLead \<Rightarrow> (error + warning list) \<times> Plugboard" where
  "AdvancedPlugboard_add b pl =
     (if first_letter pl \<in> occupied_letters b \<and> last_letter pl \<in> occupied_letters b
        then (Inl ValueError, b)
      else if first_letter pl \<in> occupied_letters b then (Inl ValueError, b)
      else if last_letter pl \<in> occupied_letters b then (Inl ValueError, b)
      else
        (let w = (if lead_in pl (connections b) then [AlreadyConnected] else [])
         in if length (connections b) \<ge> advanced_connection_limit
            then (Inr (w @ [LimitReached]), b)
            else (Inr w,
                  b\<lparr>connections :=
                       (if lead_in pl (connections b) then connections b
                        else connections b @ [pl]),
                     occupied_letters := occupied_letters b \<union> pair pl\<rparr>)))"

fun advanced_add_leads :: "Plugboard \<Rightarrow> string list \<Rightarrow> (error + unit) \<times> Plugboard" where
  "advanced_add_leads b [] = (Inr (), b)"
| "advanced_add_leads b (lead # leads) =
     (case AdvancedPlugLead_init lead of
        Inl e \<Rightarrow> (Inl e, b)
      | Inr pl \<Rightarrow>
          (case AdvancedPlugboard_add b pl of
             (Inl e, b') \<Rightarrow> (Inl e, b')
           | (Inr _, b') \<Rightarrow> advanced_add_leads b' leads))"

definition AdvancedPlugboard_init :: "string list option \<Rightarrow> error + Plugboard" where
  "AdvancedPlugboard_init leads =
     (let b = \<lparr>connections = [], occupied_letters = {}\<rparr>
      in case leads of
           None \<Rightarrow> Inr b
         | Some ls \<Rightarrow>
             (case advanced_add_leads b ls of (Inl e, _) \<Rightarrow> Inl e | (Inr _, b') \<Rightarrow> Inr b'))"

fun AdvancedPlugboard_encode_loop :: "PlugLead list \<Rightarrow> nat \<Rightarrow> nat \<Rightarrow> char \<Rightarrow> error + char" where
  "AdvancedPlugboard_encode_loop [] i n character = Inl ValueError"
| "AdvancedPlugboard_encode_loop (pl # pls) i n character =
     (if character \<in> pair pl \<or> i + 1 = n then AdvancedPlugLead_encode pl character
      else AdvancedPlugboard_encode_loop pls (i + 1) n character)"

definition AdvancedPlugboard_encode :: "Plugboard \<Rightarrow> char \<Rightarrow> error + char" where
  "AdvancedPlugboard_encode b character =
     AdvancedPlugboard_encode_loop (connections b) 0 (length (connections b)) character"

section \<open>EnigmaAdvanced.py: AdvancedRotor\<close>

text \<open>\<open>[chr(65 + i) for i in range(26)] + [chr(48 + i) for i in range(10)]\<close>\<close>

definition lineup :: "char list" where
  "lineup = map (\<lambda>i. py_chr (65 + int i)) [0..<26] @ map (\<lambda>i. py_chr (48 + int i)) [0..<10]"

text \<open>\<open>AdvancedRotor\<close> is a subclass of \<open>Rotor\<close>: the record extends it.\<close>

record AdvancedRotor = Rotor +
  rotor_input :: rotor_type
  tuple_bool :: bool
  list_bool :: bool

text \<open>
  \<open>AdvancedRotor.__init__\<close>.  \<open>tuple_bool\<close> holds only for a tuple; its notch string is
  tested for its characters but not for its length.  \<open>list_bool\<close> takes \<open>len\<close> of the
  argument itself: 2 for a tuple, the number of characters for a string, so that a string
  of 36 symbols counts as a wiring.  Everything else goes to \<open>Rotor.__init__\<close>.
\<close>

definition fallback_Rotor_init ::
  "rotor_type \<Rightarrow> int \<Rightarrow> char \<Rightarrow> bool \<Rightarrow> bool \<Rightarrow> error + AdvancedRotor" where
  "fallback_Rotor_init rt rg pos tb lb =
     (case Rotor_init rt rg pos of
        Inl e \<Rightarrow> Inl e
      | Inr r \<Rightarrow>
          Inr \<lparr>ring = ring r, position = position r, mapping = mapping r,
               notch = notch r, is_reflector = is_reflector r,
               rotor_input = rt, tuple_bool = tb, list_bool = lb\<rparr>)"

definition AdvancedRotor_init :: "rotor_type \<Rightarrow> int \<Rightarrow> char \<Rightarrow> error + AdvancedRotor" where
  "AdvancedRotor_init rt rg pos =
     (if rg < 1 \<or> rg > 36 then Inl ValueError
      else if \<not> is_upper_or_numeric pos then Inl ValueError
      else case rt of
             WithNotch m nt \<Rightarrow>
               (let tb = (length m = 36 \<and> distinct m \<and> list_all is_upper_or_numeric m
                          \<and> (str_upper_alpha nt \<or> str_numeric nt));
                    lb = False
                in if tb
                   then Inr \<lparr>ring = rg, position = pos, mapping = m, notch = Some nt,
                             is_reflector = False, rotor_input = rt, tuple_bool = tb,
                             list_bool = lb\<rparr>
                   else fallback_Rotor_init rt rg pos tb lb)
           | Named n \<Rightarrow>
               (let tb = False;
                    lb = (length n = 36 \<and> list_all is_upper_or_numeric n)
                in if lb
                   then Inr \<lparr>ring = rg, position = pos, mapping = n, notch = None,
                             is_reflector = False, rotor_input = rt, tuple_bool = tb,
                             list_bool = lb\<rparr>
                   else fallback_Rotor_init rt rg pos tb lb)
           | NoNotch m \<Rightarrow>
               (let tb = False;
                    lb = (length m = 36 \<and> list_all is_upper_or_numeric m)
                in if lb
                   then Inr \<lparr>ring = rg, position = pos, mapping = m, notch = None,
                             is_reflector = False, rotor_input = rt, tuple_bool = tb,
                             list_bool = lb\<rparr>
                   else fallback_Rotor_init rt rg pos tb lb))"

definition AdvancedRotor_advance_position :: "AdvancedRotor \<Rightarrow> error + AdvancedRotor" where
  "AdvancedRotor_advance_position r =
     (if tuple_bool r \<or> list_bool r
      then (if position r = CHR ''9'' then Inr (r\<lparr>position := CHR ''A''\<rparr>)
            else case list_index lineup (position r) of
                   Inl e \<Rightarrow> Inl e
                 | Inr predex \<Rightarrow>
                     (case py_getitem lineup (int predex + 1) of
                        Inl e \<Rightarrow> Inl e
                      | Inr p \<Rightarrow> Inr (r\<lparr>position := p\<rparr>)))
      else Inr (advance_position r))"

definition AdvancedRotor_encode_right_to_left :: "AdvancedRotor \<Rightarrow> char \<Rightarrow> error + char" where
  "AdvancedRotor_encode_right_to_left r c =
     (if tuple_bool r \<or> list_bool r
      then (if \<not> is_upper_or_numeric c then Inl ValueError
            else case list_index lineup c of
                   Inl e \<Rightarrow> Inl e
                 | Inr j \<Rightarrow> py_getitem (mapping r) (int j))
      else encode_right_to_left r c)"

definition AdvancedRotor_encode_left_to_right :: "AdvancedRotor \<Rightarrow> char \<Rightarrow> error + char" where
  "AdvancedRotor_encode_left_to_right r c =
     (if tuple_bool r \<or> list_bool r
      then (if \<not> is_upper_or_numeric c then Inl ValueError
            else case list_index (mapping r) c of
                   Inl e \<Rightarrow> Inl e
                 | Inr j \<Rightarrow> py_getitem lineup (int j))
      else encode_left_to_right r c)"

text \<open>The body shared by \<open>encode_offset_rtl\<close> and \<open>encode_offset_ltr\<close> of the advanced
  rotor; \<open>enc\<close> is the direct substitution each of them calls.\<close>

definition advanced_offset_encode ::
  "(AdvancedRotor \<Rightarrow> char \<Rightarrow> error + char) \<Rightarrow> AdvancedRotor \<Rightarrow> char \<Rightarrow> error + char" where
  "advanced_offset_encode enc r c =
     (case list_index lineup (position r) of
        Inl e \<Rightarrow> Inl e
      | Inr p \<Rightarrow>
          (let offset = int p - ring r + 1
           in case list_index lineup c of
                Inl e \<Rightarrow> Inl e
              | Inr ci \<Rightarrow>
                  (case py_getitem lineup ((int ci + offset) mod 36) of
                     Inl e \<Rightarrow> Inl e
                   | Inr offset_char \<Rightarrow>
                       (case enc r offset_char of
                          Inl e \<Rightarrow> Inl e
                        | Inr encode_char \<Rightarrow>
                            (case list_index lineup encode_char of
                               Inl e \<Rightarrow> Inl e
                             | Inr ei \<Rightarrow> py_getitem lineup ((int ei - offset) mod 36))))))"

definition AdvancedRotor_encode_offset_rtl :: "AdvancedRotor \<Rightarrow> char \<Rightarrow> error + char" where
  "AdvancedRotor_encode_offset_rtl r c =
     (if tuple_bool r \<or> list_bool r
      then advanced_offset_encode AdvancedRotor_encode_right_to_left r c
      else encode_offset_rtl r c)"

definition AdvancedRotor_encode_offset_ltr :: "AdvancedRotor \<Rightarrow> char \<Rightarrow> error + char" where
  "AdvancedRotor_encode_offset_ltr r c =
     (if tuple_bool r \<or> list_bool r
      then advanced_offset_encode AdvancedRotor_encode_left_to_right r c
      else encode_offset_ltr r c)"

definition AdvancedRotor_valid_reflector :: "AdvancedRotor \<Rightarrow> error + bool" where
  "AdvancedRotor_valid_reflector r =
     (if tuple_bool r \<or> list_bool r
      then (if notch r \<noteq> None then Inr False
            else (let dic = zip lineup (mapping r) in valid_reflector_loop dic dic))
      else valid_reflector r)"

section \<open>EnigmaAdvanced.py: Commercial_enigma_advanced\<close>

fun AdvancedRotor_list_init :: "rotor_type list \<Rightarrow> error + AdvancedRotor list" where
  "AdvancedRotor_list_init [] = Inr []"
| "AdvancedRotor_list_init (rt # rts) =
     (case AdvancedRotor_init rt 1 CHR ''A'' of
        Inl e \<Rightarrow> Inl e
      | Inr r \<Rightarrow>
          (case AdvancedRotor_list_init rts of Inl e \<Rightarrow> Inl e | Inr rs \<Rightarrow> Inr (r # rs)))"

fun advanced_ring_settings_loop ::
  "AdvancedRotor list \<Rightarrow> int list \<Rightarrow> nat \<Rightarrow> (error + unit) \<times> AdvancedRotor list" where
  "advanced_ring_settings_loop rs [] i = (Inr (), rs)"
| "advanced_ring_settings_loop rs (rg # rings) i =
     (if rg < 1 \<or> rg > 36 then (Inl ValueError, rs)
      else advanced_ring_settings_loop (rs[i + 1 := (rs ! (i + 1))\<lparr>ring := rg\<rparr>]) rings (i + 1))"

definition advanced_ring_settings ::
  "AdvancedRotor Commercial_enigma \<Rightarrow> int list
     \<Rightarrow> (error + unit) \<times> AdvancedRotor Commercial_enigma" where
  "advanced_ring_settings m rings =
     (if int (length rings) \<noteq> int (length (rotors m)) - 1 then (Inl ValueError, m)
      else case advanced_ring_settings_loop (rotors m) rings 0 of
             (res, rs) \<Rightarrow> (res, m\<lparr>rotors := rs\<rparr>))"

fun advanced_position_settings_loop ::
  "AdvancedRotor list \<Rightarrow> char list \<Rightarrow> nat \<Rightarrow> (error + unit) \<times> AdvancedRotor list" where
  "advanced_position_settings_loop rs [] i = (Inr (), rs)"
| "advanced_position_settings_loop rs (p # positions) i =
     (if \<not> is_upper_or_numeric p then (Inl ValueError, rs)
      else advanced_position_settings_loop (rs[i + 1 := (rs ! (i + 1))\<lparr>position := p\<rparr>])
             positions (i + 1))"

definition advanced_position_settings ::
  "AdvancedRotor Commercial_enigma \<Rightarrow> char list
     \<Rightarrow> (error + unit) \<times> AdvancedRotor Commercial_enigma" where
  "advanced_position_settings m positions =
     (if int (length positions) \<noteq> int (length (rotors m)) - 1 then (Inl ValueError, m)
      else case advanced_position_settings_loop (rotors m) positions 0 of
             (res, rs) \<Rightarrow> (res, m\<lparr>rotors := rs\<rparr>))"

definition advanced_check_reflector :: "AdvancedRotor list \<Rightarrow> error + AdvancedRotor list" where
  "advanced_check_reflector rs =
     (if \<not> is_reflector (rs ! 0)
      then (case AdvancedRotor_valid_reflector (rs ! 0) of
              Inl e \<Rightarrow> Inl e
            | Inr ok \<Rightarrow>
                if ok then Inr (rs[0 := (rs ! 0)\<lparr>is_reflector := True\<rparr>]) else Inl ValueError)
      else Inr rs)"

definition Commercial_enigma_advanced_init ::
  "rotor_type list \<Rightarrow> int list option \<Rightarrow> char list option
     \<Rightarrow> error + AdvancedRotor Commercial_enigma" where
  "Commercial_enigma_advanced_init rts rings positions =
     (if length rts \<noteq> 4 \<and> length rts \<noteq> 5 then Inl ValueError
      else case AdvancedRotor_list_init rts of
        Inl e \<Rightarrow> Inl e
      | Inr rs0 \<Rightarrow>
        (case advanced_check_reflector rs0 of
           Inl e \<Rightarrow> Inl e
         | Inr rs \<Rightarrow>
           if list_ex is_reflector (tl rs) then Inl ValueError
           else
             (let m = \<lparr>rotors = rs, ring_length = int (length rts) - 1,
                       position_length = int (length rts) - 1\<rparr>
              in case (case rings of None \<Rightarrow> (Inr (), m)
                                   | Some rgs \<Rightarrow> advanced_ring_settings m rgs) of
                   (Inl e, _) \<Rightarrow> Inl e
                 | (Inr _, m1) \<Rightarrow>
                     (case (case positions of None \<Rightarrow> (Inr (), m1)
                                            | Some ps \<Rightarrow> advanced_position_settings m1 ps) of
                        (Inl e, _) \<Rightarrow> Inl e
                      | (Inr _, m2) \<Rightarrow> Inr m2))))"

text \<open>
  \<open>rotors[k].advance_position()\<close> on the rotor list: the rotor at \<open>k\<close> is replaced by the
  advanced one, or the exception of \<open>advance_position\<close> leaves the list as it is.
\<close>

definition advance_at :: "AdvancedRotor list \<Rightarrow> nat \<Rightarrow> error + AdvancedRotor list" where
  "advance_at rs k =
     (case AdvancedRotor_advance_position (rs ! k) of
        Inl e \<Rightarrow> Inl e
      | Inr r \<Rightarrow> Inr (rs[k := r]))"

definition Commercial_enigma_advanced_rotate ::
  "AdvancedRotor Commercial_enigma \<Rightarrow> (error + unit) \<times> AdvancedRotor Commercial_enigma" where
  "Commercial_enigma_advanced_rotate m =
     (let rs = rotors m; n = length rs
      in if n < 2 then (Inl IndexError, m)
         else
           (let rot1 = (Some [position (rs ! (n - 1))] = notch (rs ! (n - 1)));
                rot2 = (Some [position (rs ! (n - 2))] = notch (rs ! (n - 2)))
            in case advance_at rs (n - 1) of
                 Inl e \<Rightarrow> (Inl e, m)
               | Inr rs1 \<Rightarrow>
                   (case (if rot1 then advance_at rs1 (n - 2) else Inr rs1) of
                      Inl e \<Rightarrow> (Inl e, m\<lparr>rotors := rs1\<rparr>)
                    | Inr rs2 \<Rightarrow>
                        if rot2
                        then (case (if \<not> rot1 then advance_at rs2 (n - 2) else Inr rs2) of
                                Inl e \<Rightarrow> (Inl e, m\<lparr>rotors := rs2\<rparr>)
                              | Inr rs3 \<Rightarrow>
                                  if n < 3 then (Inl IndexError, m\<lparr>rotors := rs3\<rparr>)
                                  else (case advance_at rs3 (n - 3) of
                                          Inl e \<Rightarrow> (Inl e, m\<lparr>rotors := rs3\<rparr>)
                                        | Inr rs4 \<Rightarrow> (Inr (), m\<lparr>rotors := rs4\<rparr>)))
                        else (Inr (), m\<lparr>rotors := rs2\<rparr>))))"

fun advanced_pass_rtl :: "AdvancedRotor list \<Rightarrow> char \<Rightarrow> error + char" where
  "advanced_pass_rtl [] c = Inr c"
| "advanced_pass_rtl (r # rs) c =
     (case AdvancedRotor_encode_offset_rtl r c of
        Inl e \<Rightarrow> Inl e
      | Inr d \<Rightarrow> advanced_pass_rtl rs d)"

fun advanced_pass_ltr :: "AdvancedRotor list \<Rightarrow> char \<Rightarrow> error + char" where
  "advanced_pass_ltr [] c = Inr c"
| "advanced_pass_ltr (r # rs) c =
     (case AdvancedRotor_encode_offset_ltr r c of
        Inl e \<Rightarrow> Inl e
      | Inr d \<Rightarrow> advanced_pass_ltr rs d)"

definition Commercial_enigma_advanced_encode ::
  "AdvancedRotor Commercial_enigma \<Rightarrow> char
     \<Rightarrow> (error + char) \<times> AdvancedRotor Commercial_enigma" where
  "Commercial_enigma_advanced_encode m c =
     (case Commercial_enigma_advanced_rotate m of
        (Inl e, m') \<Rightarrow> (Inl e, m')
      | (Inr _, m') \<Rightarrow>
          (case advanced_pass_rtl (rev (rotors m')) c of
             Inl e \<Rightarrow> (Inl e, m')
           | Inr c1 \<Rightarrow>
               (case advanced_pass_ltr (tl (rotors m')) c1 of
                  Inl e \<Rightarrow> (Inl e, m')
                | Inr c2 \<Rightarrow> (Inr c2, m'))))"

definition advanced_swap_rotors ::
  "AdvancedRotor Commercial_enigma \<Rightarrow> rotor_type list
     \<Rightarrow> (error + unit) \<times> AdvancedRotor Commercial_enigma" where
  "advanced_swap_rotors m rts =
     (if length rts \<noteq> 4 \<and> length rts \<noteq> 5 then (Inl ValueError, m)
      else case len_of_int (ring_length m) of
        Inl e \<Rightarrow> (Inl e, m)
      | Inr l1 \<Rightarrow>
          if int (length rts) \<noteq> l1 + 1 then (Inl ValueError, m)
          else (case len_of_int (position_length m) of
                  Inl e \<Rightarrow> (Inl e, m)
                | Inr l2 \<Rightarrow>
                    if int (length rts) \<noteq> l2 + 1 then (Inl ValueError, m)
                    else (case AdvancedRotor_list_init rts of
                            Inl e \<Rightarrow> (Inl e, m)
                          | Inr rs \<Rightarrow> (Inr (), m\<lparr>rotors := rs\<rparr>))))"

section \<open>EnigmaAdvanced.py: AdvancedEnigma\<close>

text \<open>
  \<open>AdvancedEnigma\<close> has the attributes \<open>ce\<close> and \<open>pb\<close> of the facade and its own.
  \<open>swapS\<close>, \<open>swapR\<close> and \<open>swapP\<close> exist only once \<open>random_gen\<close> has set them: reading
  one that is \<open>None\<close> here is an AttributeError there.
\<close>

record AdvancedEnigma = "AdvancedRotor Enigma" +
  initials :: "rotor_type list \<times> int list option \<times> char list option"
  advanced :: "string list"
  swapS :: "nat option"
  swapR :: "nat option"
  swapP :: "nat option"

text \<open>
  The random draws of one call of \<open>auxiliary_string\<close>, as an input: the index drawn by
  \<open>random_gen\<close> and the letters sampled in the \<open>k\<close>-th turn of its loop, and the letter
  chosen as end marker.
\<close>

record draws =
  draw_index :: "nat \<Rightarrow> nat"
  draw_letters :: "nat \<Rightarrow> string"
  draw_repeater :: char

text \<open>The class tables; a tuple of the tables is the list of its components.\<close>

definition swap_perms :: "nat list list" where
  "swap_perms = [[0, 1, 2], [0, 2, 1], [1, 0, 2], [1, 2, 0], [2, 0, 1], [2, 1, 0]]"

definition ring_perms :: "int list list" where
  "ring_perms =
     concat (map (\<lambda>a. concat (map (\<lambda>b. map (\<lambda>c. [a, b, c]) (map int [1..<37]))
                                   (map int [1..<37])))
                 (map int [1..<37]))"

definition position_perms :: "char list list" where
  "position_perms =
     concat (map (\<lambda>a. concat (map (\<lambda>b. map (\<lambda>c. [a, b, c]) lineup) lineup)) lineup)"

definition max_rand :: nat where
  "max_rand = 5"

text \<open>\<open>str\<close> of a natural number and \<open>int\<close> of a string of digits.\<close>

function str_nat :: "nat \<Rightarrow> string" where
  "str_nat n = (if n < 10 then [py_chr (48 + int n)]
                else str_nat (n div 10) @ [py_chr (48 + int (n mod 10))])"
  by pat_completeness auto
termination
  by (relation "measure id") auto

definition int_of_digits :: "string \<Rightarrow> nat" where
  "int_of_digits s = foldl (\<lambda>acc c. 10 * acc + nat (py_ord c - 48)) 0 s"

text \<open>\<open>re.search(r'([A-Z])\1', s).span()[1]\<close>: the end of the first pair of equal adjacent
  capital letters; \<open>None\<close> when the search finds nothing.  \<open>i\<close> is the position of the
  head of the list in the whole string.\<close>

fun doubled_letter_end :: "string \<Rightarrow> nat \<Rightarrow> nat option" where
  "doubled_letter_end (a # b # cs) i =
     (if a = b \<and> is_upper_alpha a then Some (i + 2) else doubled_letter_end (b # cs) (i + 1))"
| "doubled_letter_end _ i = None"

text \<open>\<open>re.findall(r'\d+', s)\<close>: the maximal runs of digits, in order; \<open>cur\<close> is the run
  being read.\<close>

fun digit_runs :: "string \<Rightarrow> string \<Rightarrow> string list" where
  "digit_runs [] cur = (if cur = [] then [] else [cur])"
| "digit_runs (c # cs) cur =
     (if is_numeric c then digit_runs cs (cur @ [c])
      else if cur = [] then digit_runs cs [] else cur # digit_runs cs [])"

text \<open>\<open>max\<close> and \<open>min\<close> of a list raise ValueError on the empty list.\<close>

definition py_max :: "int list \<Rightarrow> error + int" where
  "py_max xs = (case xs of [] \<Rightarrow> Inl ValueError | x # ys \<Rightarrow> Inr (fold max ys x))"

definition py_min :: "int list \<Rightarrow> error + int" where
  "py_min xs = (case xs of [] \<Rightarrow> Inl ValueError | x # ys \<Rightarrow> Inr (fold min ys x))"

text \<open>The slice \<open>s[i:j]\<close>: indices below zero count from the end, and both are clipped to
  the string.\<close>

definition slice_index :: "nat \<Rightarrow> int \<Rightarrow> nat" where
  "slice_index n i = (if i < 0 then nat (max (int n + i) 0) else min (nat i) n)"

definition py_slice :: "'a list \<Rightarrow> int \<Rightarrow> int \<Rightarrow> 'a list" where
  "py_slice s i j = drop (slice_index (length s) i) (take (slice_index (length s) j) s)"

definition AdvancedEnigma_init ::
  "rotor_type list \<Rightarrow> int list option \<Rightarrow> char list option \<Rightarrow> string list option
     \<Rightarrow> string list \<Rightarrow> error + AdvancedEnigma" where
  "AdvancedEnigma_init rts rings positions plugboard adv =
     (case Commercial_enigma_advanced_init rts rings positions of
        Inl e \<Rightarrow> Inl e
      | Inr m \<Rightarrow>
          (case (case plugboard of
                   None \<Rightarrow> Inr None
                 | Some leads \<Rightarrow>
                     (case AdvancedPlugboard_init (Some leads) of
                        Inl e \<Rightarrow> Inl e
                      | Inr b \<Rightarrow> Inr (Some b))) of
             Inl e \<Rightarrow> Inl e
           | Inr b \<Rightarrow>
               Inr \<lparr>ce = m, pb = b, initials = (rts, rings, positions), advanced = adv,
                    swapS = None, swapR = None, swapP = None\<rparr>))"

definition AdvancedEnigma_encode :: "AdvancedEnigma \<Rightarrow> char \<Rightarrow> (error + char) \<times> AdvancedEnigma" where
  "AdvancedEnigma_encode ae c =
     (case pb ae of
        None \<Rightarrow>
          (case Commercial_enigma_advanced_encode (ce ae) c of (res, m') \<Rightarrow> (res, ae\<lparr>ce := m'\<rparr>))
      | Some b \<Rightarrow>
          (case AdvancedPlugboard_encode b c of
             Inl e \<Rightarrow> (Inl e, ae)
           | Inr c1 \<Rightarrow>
               (case Commercial_enigma_advanced_encode (ce ae) c1 of
                  (Inl e, m') \<Rightarrow> (Inl e, ae\<lparr>ce := m'\<rparr>)
                | (Inr c2, m') \<Rightarrow>
                    (case AdvancedPlugboard_encode b c2 of
                       Inl e \<Rightarrow> (Inl e, ae\<lparr>ce := m'\<rparr>)
                     | Inr c3 \<Rightarrow> (Inr c3, ae\<lparr>ce := m'\<rparr>)))))"

fun AdvancedEnigma_encode_loop ::
  "AdvancedEnigma \<Rightarrow> string \<Rightarrow> string \<Rightarrow> (error + string) \<times> AdvancedEnigma" where
  "AdvancedEnigma_encode_loop ae out [] = (Inr out, ae)"
| "AdvancedEnigma_encode_loop ae out (c # cs) =
     (case AdvancedEnigma_encode ae c of
        (Inl e, ae') \<Rightarrow> (Inl e, ae')
      | (Inr d, ae') \<Rightarrow> AdvancedEnigma_encode_loop ae' (out @ [d]) cs)"

definition AdvancedEnigma_encode_string ::
  "AdvancedEnigma \<Rightarrow> string \<Rightarrow> (error + string) \<times> AdvancedEnigma" where
  "AdvancedEnigma_encode_string ae s = AdvancedEnigma_encode_loop ae [] s"

definition get_rotor_types :: "AdvancedEnigma \<Rightarrow> rotor_type list" where
  "get_rotor_types ae = map rotor_input (rotors (ce ae))"

definition get_rings :: "AdvancedEnigma \<Rightarrow> int list" where
  "get_rings ae = map ring (rotors (ce ae))"

definition get_positions :: "AdvancedEnigma \<Rightarrow> char list" where
  "get_positions ae = map position (rotors (ce ae))"

definition random_gen :: "AdvancedEnigma \<Rightarrow> string \<Rightarrow> nat \<Rightarrow> (error + string) \<times> AdvancedEnigma" where
  "random_gen ae instruction k =
     (if instruction = ''S'' then (Inr (str_nat k), ae\<lparr>swapS := Some k\<rparr>)
      else if instruction = ''R'' then (Inr (str_nat k), ae\<lparr>swapR := Some k\<rparr>)
      else if instruction = ''P'' then (Inr (str_nat k), ae\<lparr>swapP := Some k\<rparr>)
      else (Inl ValueError, ae))"

fun auxiliary_loop ::
  "AdvancedEnigma \<Rightarrow> draws \<Rightarrow> string list \<Rightarrow> nat \<Rightarrow> string \<Rightarrow> (error + string) \<times> AdvancedEnigma" where
  "auxiliary_loop ae d [] k aux_string = (Inr aux_string, ae)"
| "auxiliary_loop ae d (instruction # rest) k aux_string =
     (case random_gen ae instruction (draw_index d k) of
        (Inl e, ae') \<Rightarrow> (Inl e, ae')
      | (Inr t, ae') \<Rightarrow> auxiliary_loop ae' d rest (k + 1) (aux_string @ t @ draw_letters d k))"

definition auxiliary_string :: "AdvancedEnigma \<Rightarrow> draws \<Rightarrow> (error + string) \<times> AdvancedEnigma" where
  "auxiliary_string ae d =
     (case auxiliary_loop ae d (advanced ae) 0 [] of
        (Inl e, ae') \<Rightarrow> (Inl e, ae')
      | (Inr aux_string, ae') \<Rightarrow>
          (Inr (aux_string @ [draw_repeater d, draw_repeater d]), ae'))"

text \<open>The draws that \<open>randint\<close>, \<open>sample\<close> and \<open>choice\<close> can return for the instruction
  list \<open>adv\<close>.\<close>

definition index_bound :: "string \<Rightarrow> nat" where
  "index_bound instruction =
     (if instruction = ''S'' then length swap_perms
      else if instruction = ''R'' then 46656
      else if instruction = ''P'' then 46656
      else 0)"

definition possible_draws :: "string list \<Rightarrow> draws \<Rightarrow> bool" where
  "possible_draws adv d =
     ((\<forall>k < length adv.
         draw_index d k < index_bound (adv ! k)
         \<and> 1 \<le> length (draw_letters d k) \<and> length (draw_letters d k) \<le> max_rand
         \<and> distinct (draw_letters d k) \<and> list_all is_upper_alpha (draw_letters d k))
      \<and> is_upper_alpha (draw_repeater d))"

text \<open>The local variables of the two protocol methods that their loops read; one that has
  not been assigned is \<open>None\<close>, and reading it raises UnboundLocalError.\<close>

record locals =
  swapped_rotors :: "rotor_type list option"
  swapped_rings :: "int list option"
  swapped_positions :: "char list option"
  current_rotors :: "rotor_type list"
  current_rings :: "int list option"
  current_positions :: "char list option"

text \<open>
  The loop over \<open>partitioned\<close>, the same in both methods: a fresh machine for each
  piece, in turn from the swapped and from the current settings, and the positions it
  ends in kept for the next piece under the same settings.
\<close>

fun partition_loop ::
  "AdvancedEnigma \<Rightarrow> locals \<Rightarrow> string list \<Rightarrow> bool \<Rightarrow> string \<Rightarrow> (error + string) \<times> AdvancedEnigma" where
  "partition_loop ae l [] active encode = (Inr encode, ae)"
| "partition_loop ae l (piece # pieces) active encode =
     (if active
      then (case (swapped_rotors l, swapped_rings l, swapped_positions l) of
              (Some sr, Some sg, Some sp) \<Rightarrow>
                (case Commercial_enigma_advanced_init sr (Some sg) (Some sp) of
                   Inl e \<Rightarrow> (Inl e, ae)
                 | Inr m \<Rightarrow>
                     (case AdvancedEnigma_encode_string (ae\<lparr>ce := m\<rparr>) piece of
                        (Inl e, ae') \<Rightarrow> (Inl e, ae')
                      | (Inr t, ae') \<Rightarrow>
                          partition_loop ae'
                            (l\<lparr>swapped_positions := Some (tl (get_positions ae'))\<rparr>)
                            pieces (\<not> active) (encode @ t)))
            | _ \<Rightarrow> (Inl UnboundLocalError, ae))
      else (case (current_rings l, current_positions l) of
              (Some cg, Some cp) \<Rightarrow>
                (case Commercial_enigma_advanced_init (current_rotors l) (Some cg) (Some cp) of
                   Inl e \<Rightarrow> (Inl e, ae)
                 | Inr m \<Rightarrow>
                     (case AdvancedEnigma_encode_string (ae\<lparr>ce := m\<rparr>) piece of
                        (Inl e, ae') \<Rightarrow> (Inl e, ae')
                      | (Inr t, ae') \<Rightarrow>
                          partition_loop ae'
                            (l\<lparr>current_positions := Some (tl (get_positions ae'))\<rparr>)
                            pieces (\<not> active) (encode @ t)))
            | _ \<Rightarrow> (Inl UnboundLocalError, ae)))"

text \<open>\<open>[string[i:j] for i, j in zip([0] + unpacked, unpacked)]\<close>, after \<open>unpacked\<close> has
  had the length of the string appended.\<close>

definition partitioned :: "string \<Rightarrow> int list \<Rightarrow> string list" where
  "partitioned s unpacked =
     (let u = unpacked @ [int (length s)]
      in map (\<lambda>(i, j). py_slice s i j) (zip (0 # u) u))"

text \<open>\<open>current_rotors.copy()[:-3] + [just3[i] for i in swap_perms[k]]\<close>\<close>

definition swap_last_three :: "rotor_type list \<Rightarrow> nat \<Rightarrow> error + rotor_type list" where
  "swap_last_three rts k =
     (case py_getitem swap_perms (int k) of
        Inl e \<Rightarrow> Inl e
      | Inr perm \<Rightarrow>
          (let just3 = py_slice rts (- 3) (int (length rts))
           in if list_all (\<lambda>i. i < length just3) perm
              then Inr (py_slice rts 0 (- 3) @ map (\<lambda>i. just3 ! i) perm)
              else Inl IndexError))"

text \<open>\<open>ring_perms[k]\<close> and \<open>position_perms[k]\<close>.\<close>

definition ring_perms_getitem :: "nat \<Rightarrow> error + int list" where
  "ring_perms_getitem k = py_getitem ring_perms (int k)"

definition position_perms_getitem :: "nat \<Rightarrow> error + char list" where
  "position_perms_getitem k = py_getitem position_perms (int k)"

text \<open>The ring or position settings made of the triple \<open>item\<close> read from a table: on
  five rotors the first current setting is read first and kept in front of the triple.\<close>

definition swapped_settings :: "error + 'a list \<Rightarrow> rotor_type list \<Rightarrow> 'a list \<Rightarrow> error + 'a list" where
  "swapped_settings item rts cur =
     (if length rts = 5
      then (case py_getitem cur 0 of
              Inl e \<Rightarrow> Inl e
            | Inr x \<Rightarrow> (case item of Inl e \<Rightarrow> Inl e | Inr t \<Rightarrow> Inr (x # t)))
      else item)"

text \<open>
  The part of \<open>encode_advanced_string\<close> after the prefix has been encoded: the swapped
  settings are built from the indices that \<open>random_gen\<close> stored, and the pieces of the
  string are encoded.
\<close>

definition encode_body ::
  "AdvancedEnigma \<Rightarrow> string \<Rightarrow> int list \<Rightarrow> string \<Rightarrow> (error + string) \<times> AdvancedEnigma" where
  "encode_body ae2 string unpacked prencode =
     (let cr = get_rotor_types ae2
      in (case swapS ae2 of
            None \<Rightarrow> (Inl AttributeError, ae2)
          | Some ks \<Rightarrow>
             (case swap_last_three cr ks of
                Inl e \<Rightarrow> (Inl e, ae2)
              | Inr sr \<Rightarrow>
                 (let cg = tl (get_rings ae2); cp = tl (get_positions ae2)
                  in (case swapR ae2 of
                        None \<Rightarrow> (Inl AttributeError, ae2)
                      | Some kr \<Rightarrow>
                         (case swapped_settings (ring_perms_getitem kr) cr cg of
                            Inl e \<Rightarrow> (Inl e, ae2)
                          | Inr sg \<Rightarrow>
                             (case swapP ae2 of
                                None \<Rightarrow> (Inl AttributeError, ae2)
                              | Some kp \<Rightarrow>
                                 (case swapped_settings (position_perms_getitem kp) cr cp of
                                    Inl e \<Rightarrow> (Inl e, ae2)
                                  | Inr sp \<Rightarrow>
                                     (case partition_loop ae2
                                             \<lparr>swapped_rotors = Some sr, swapped_rings = Some sg,
                                              swapped_positions = Some sp, current_rotors = cr,
                                              current_rings = Some cg, current_positions = Some cp\<rparr>
                                             (partitioned string unpacked) True [] of
                                        (Inl e, ae3) \<Rightarrow> (Inl e, ae3)
                                      | (Inr encode, ae3) \<Rightarrow>
                                          (Inr (prencode @ encode), ae3))))))))))"

text \<open>
  \<open>AdvancedEnigma.encode_advanced_string\<close>.  The guard is an \<open>or\<close> of four tests,
  evaluated in order; \<open>max\<close> and \<open>min\<close> raise on an empty list.  The method also appends
  \<open>len(string)\<close> to the caller's list \<open>unpacked\<close>; the list is an argument here, and the
  append is in \<open>partitioned\<close>.
\<close>

definition encode_advanced_string ::
  "AdvancedEnigma \<Rightarrow> string \<Rightarrow> int list \<Rightarrow> draws \<Rightarrow> (error + string) \<times> AdvancedEnigma" where
  "encode_advanced_string ae string unpacked d =
     (if unpacked \<noteq> sort unpacked \<or> length unpacked \<noteq> length (remdups unpacked)
      then (Inl ValueError, ae)
      else
       (case py_max unpacked of
          Inl e \<Rightarrow> (Inl e, ae)
        | Inr mx \<Rightarrow>
         (if mx > int (length string) - 1 then (Inl ValueError, ae)
          else
           (case py_min unpacked of
              Inl e \<Rightarrow> (Inl e, ae)
            | Inr mn \<Rightarrow>
             (if mn \<le> 0 then (Inl ValueError, ae)
              else
               (case auxiliary_string ae d of
                  (Inl e, ae1) \<Rightarrow> (Inl e, ae1)
                | (Inr pre, ae1) \<Rightarrow>
                   (case AdvancedEnigma_encode_string ae1 pre of
                      (Inl e, ae2) \<Rightarrow> (Inl e, ae2)
                    | (Inr prencode, ae2) \<Rightarrow> encode_body ae2 string unpacked prencode)))))))"

text \<open>One turn of \<open>for setting, param in zip(settings, self.advanced)\<close> in
  \<open>decode_advanced_string\<close>, and the loop.\<close>

definition apply_setting :: "AdvancedEnigma \<Rightarrow> locals \<Rightarrow> nat \<times> string \<Rightarrow> error + locals" where
  "apply_setting ae l sp =
     (case sp of (setting, param) \<Rightarrow>
        if param = ''S''
        then (case swap_last_three (current_rotors l) setting of
                Inl e \<Rightarrow> Inl e
              | Inr sr \<Rightarrow> Inr (l\<lparr>swapped_rotors := Some sr\<rparr>))
        else if param = ''R''
        then (let cg = tl (get_rings ae)
              in case swapped_settings (ring_perms_getitem setting) (current_rotors l) cg of
                   Inl e \<Rightarrow> Inl e
                 | Inr sg \<Rightarrow> Inr (l\<lparr>current_rings := Some cg, swapped_rings := Some sg\<rparr>))
        else if param = ''P''
        then (let cp = tl (get_positions ae)
              in case swapped_settings (position_perms_getitem setting) (current_rotors l) cp of
                   Inl e \<Rightarrow> Inl e
                 | Inr sps \<Rightarrow> Inr (l\<lparr>current_positions := Some cp, swapped_positions := Some sps\<rparr>))
        else Inr l)"

fun settings_loop :: "AdvancedEnigma \<Rightarrow> locals \<Rightarrow> (nat \<times> string) list \<Rightarrow> error + locals" where
  "settings_loop ae l [] = Inr l"
| "settings_loop ae l (sp # sps) =
     (case apply_setting ae l sp of Inl e \<Rightarrow> Inl e | Inr l' \<Rightarrow> settings_loop ae l' sps)"

text \<open>
  The part of \<open>decode_advanced_string\<close> after the end marker has been found, with the
  instruction prefix and the message it has split the input into.
\<close>

definition decode_body ::
  "AdvancedEnigma \<Rightarrow> string \<Rightarrow> string \<Rightarrow> int list \<Rightarrow> (error + string) \<times> AdvancedEnigma" where
  "decode_body ae1 instruction message unpacked =
     (case py_max unpacked of
        Inl e \<Rightarrow> (Inl e, ae1)
      | Inr mx \<Rightarrow>
         (if mx > int (length message) - 1 then (Inl ValueError, ae1)
          else
           (let settings = map int_of_digits (digit_runs instruction [])
            in (case (case initials ae1 of (rts, rings, positions) \<Rightarrow>
                        Commercial_enigma_advanced_init rts rings positions) of
                  Inl e \<Rightarrow> (Inl e, ae1)
                | Inr m \<Rightarrow>
                   (case AdvancedEnigma_encode_string (ae1\<lparr>ce := m\<rparr>) instruction of
                      (Inl e, ae2) \<Rightarrow> (Inl e, ae2)
                    | (Inr _, ae2) \<Rightarrow>
                       (case settings_loop ae2
                               \<lparr>swapped_rotors = None, swapped_rings = None,
                                swapped_positions = None,
                                current_rotors = get_rotor_types ae2,
                                current_rings = None, current_positions = None\<rparr>
                               (zip settings (advanced ae2)) of
                          Inl e \<Rightarrow> (Inl e, ae2)
                        | Inr l \<Rightarrow>
                            partition_loop ae2 l (partitioned message unpacked) True []))))))"

text \<open>
  \<open>AdvancedEnigma.decode_advanced_string\<close>.  The first guard has three of the four tests;
  the test of \<open>max(unpacked)\<close> against the length of the message comes after the whole
  string has been run through the machine, since the message is what follows the marker
  found in that run.
\<close>

definition decode_advanced_string ::
  "AdvancedEnigma \<Rightarrow> string \<Rightarrow> int list \<Rightarrow> (error + string) \<times> AdvancedEnigma" where
  "decode_advanced_string ae total_string unpacked =
     (if unpacked \<noteq> sort unpacked \<or> length unpacked \<noteq> length (remdups unpacked)
      then (Inl ValueError, ae)
      else
       (case py_min unpacked of
          Inl e \<Rightarrow> (Inl e, ae)
        | Inr mn \<Rightarrow>
         (if mn \<le> 0 then (Inl ValueError, ae)
          else
           (case AdvancedEnigma_encode_string ae total_string of
              (Inl e, ae1) \<Rightarrow> (Inl e, ae1)
            | (Inr jumbled_instructions, ae1) \<Rightarrow>
               (case doubled_letter_end jumbled_instructions 0 of
                  None \<Rightarrow> (Inl AttributeError, ae1)
                | Some end_instruction \<Rightarrow>
                    decode_body ae1 (take end_instruction jumbled_instructions)
                      (drop end_instruction total_string) unpacked)))))"

section \<open>The offset formula in the words of the specification\<close>

text \<open>
  Offset = (index(position) - ring + 1) mod 26; the transform shifts the index of the input
  by +offset, applies the permutation, and shifts the index of the result by -offset, all
  modulo 26.  These definitions follow that sentence, not the code.
\<close>

definition spec_offset :: "Rotor \<Rightarrow> int" where
  "spec_offset r = (py_ord (position r) - 65 - ring r + 1) mod 26"

definition spec_shift :: "int \<Rightarrow> char \<Rightarrow> char" where
  "spec_shift k c = py_chr ((py_ord c - 65 + k) mod 26 + 65)"

definition spec_encode_offset_rtl :: "Rotor \<Rightarrow> char \<Rightarrow> char" where
  "spec_encode_offset_rtl r c =
     spec_shift (- spec_offset r) (mapping r ! nat (py_ord (spec_shift (spec_offset r) c) - 65))"

section \<open>Concrete objects used in the examples\<close>

definition rotor_I_B :: Rotor where
  "rotor_I_B = \<lparr>ring = 1, position = CHR ''B'', mapping = ''EKMFLGDQVZNTOWYHXUSPAIBRCJ'',
                 notch = Some ''Q'', is_reflector = False\<rparr>"

definition double_step_machine :: "Rotor Commercial_enigma" where
  "double_step_machine =
     \<lparr>rotors =
        [\<lparr>ring = 1, position = CHR ''A'', mapping = ''YRUHQSLDPXNGOKMIEBFZCWVJAT'',
          notch = None, is_reflector = True\<rparr>,
         \<lparr>ring = 1, position = CHR ''A'', mapping = ''EKMFLGDQVZNTOWYHXUSPAIBRCJ'',
          notch = Some ''Q'', is_reflector = False\<rparr>,
         \<lparr>ring = 1, position = CHR ''E'', mapping = ''AJDKSIRUXBLHWTMCQGZNPYFVOE'',
          notch = Some ''E'', is_reflector = False\<rparr>,
         \<lparr>ring = 1, position = CHR ''V'', mapping = ''BDFHJLCPRTXVZNYEIWGAKMUSQO'',
          notch = Some ''V'', is_reflector = False\<rparr>],
      ring_length = 3, position_length = 3\<rparr>"

section \<open>Plugboard: invariant and reference function\<close>

text \<open>
  A lead as \<open>PlugLead.__init__\<close> builds it; a board as \<open>add\<close> keeps it: leads that
  share no letter, each with its letters occupied.  \<open>plug_partner\<close> is the substitution
  the specification describes: the symbol paired with \<open>c\<close> in some lead, else \<open>c\<close>.
\<close>

definition wf_lead :: "PlugLead \<Rightarrow> bool" where
  "wf_lead pl =
     (first_letter pl \<noteq> last_letter pl \<and> pair pl = {first_letter pl, last_letter pl}
      \<and> is_upper_alpha (first_letter pl) \<and> is_upper_alpha (last_letter pl))"

fun disjoint_leads :: "PlugLead list \<Rightarrow> bool" where
  "disjoint_leads [] = True"
| "disjoint_leads (pl # pls) = (list_all (\<lambda>q. pair pl \<inter> pair q = {}) pls \<and> disjoint_leads pls)"

definition board_ok :: "Plugboard \<Rightarrow> bool" where
  "board_ok b =
     (list_all wf_lead (connections b) \<and> disjoint_leads (connections b)
      \<and> list_all (\<lambda>pl. pair pl \<subseteq> occupied_letters b) (connections b))"

fun plug_partner :: "PlugLead list \<Rightarrow> char \<Rightarrow> char" where
  "plug_partner [] c = c"
| "plug_partner (pl # pls) c =
     (if c = first_letter pl then last_letter pl
      else if c = last_letter pl then first_letter pl
      else plug_partner pls c)"

text \<open>Boards and leads of the examples.\<close>

definition empty_board :: Plugboard where
  "empty_board = \<lparr>connections = [], occupied_letters = {}\<rparr>"

definition lead_AB :: PlugLead where
  "lead_AB = \<lparr>pair = {CHR ''A'', CHR ''B''}, first_letter = CHR ''A'', last_letter = CHR ''B''\<rparr>"

definition board_AB :: Plugboard where
  "board_AB = \<lparr>connections = [lead_AB], occupied_letters = {CHR ''A'', CHR ''B''}\<rparr>"

definition board_AB_removed :: Plugboard where
  "board_AB_removed = \<lparr>connections = [], occupied_letters = {CHR ''A'', CHR ''B''}\<rparr>"

definition lead_AC :: PlugLead where
  "lead_AC = \<lparr>pair = {CHR ''A'', CHR ''C''}, first_letter = CHR ''A'', last_letter = CHR ''C''\<rparr>"

section \<open>Reflector: the properties the specification names\<close>

text \<open>
  Applying the mapping twice returns every symbol of the alphabet to itself; no symbol of
  the alphabet maps to itself.  The mapping is applied as \<open>encode_right_to_left\<close> does.
\<close>

definition involution_on :: "'a Rotor_scheme \<Rightarrow> bool" where
  "involution_on r =
     list_all (\<lambda>c. case encode_right_to_left r c of
                      Inl _ \<Rightarrow> False
                    | Inr d \<Rightarrow> encode_right_to_left r d = Inr c) abc"

definition fixed_point_free :: "'a Rotor_scheme \<Rightarrow> bool" where
  "fixed_point_free r = list_all (\<lambda>c. encode_right_to_left r c \<noteq> Inr c) abc"

definition identity_rotor :: Rotor where
  "identity_rotor = \<lparr>ring = 1, position = CHR ''A'', mapping = ''ABCDEFGHIJKLMNOPQRSTUVWXYZ'',
                      notch = None, is_reflector = False\<rparr>"

definition rotor_B :: Rotor where
  "rotor_B = \<lparr>ring = 1, position = CHR ''A'', mapping = ''YRUHQSLDPXNGOKMIEBFZCWVJAT'',
               notch = None, is_reflector = True\<rparr>"

section \<open>The tables of triples\<close>

text \<open>\<open>list(it.product(xs, repeat=3))\<close>, the shape of \<open>ring_perms\<close> and
  \<open>position_perms\<close>.\<close>

definition triples :: "'a list \<Rightarrow> 'a list list" where
  "triples xs = concat (map (\<lambda>a. concat (map (\<lambda>b. map (\<lambda>c. [a, b, c]) xs) xs)) xs)"

section \<open>Facts about symbols\<close>

lemma py_ord_chr: "0 \<le> n \<Longrightarrow> n < 256 \<Longrightarrow> py_ord (py_chr n) = n"
  by (simp add: py_ord_def py_chr_def)

lemma py_chr_ord: "py_chr (py_ord c) = c"
  by (simp add: py_ord_def py_chr_def)

lemma py_ord_inject: "py_ord a = py_ord b \<Longrightarrow> a = b"
  by (metis py_chr_ord)

lemma py_ord_A: "py_ord CHR ''A'' = 65"
  by (simp add: py_ord_def)

lemma letter_upper: "is_upper_alpha (py_chr ((k mod 26) + 65))"
proof -
  have "0 \<le> k mod 26" "k mod 26 < 26" by simp_all
  then show ?thesis by (simp add: is_upper_alpha_def py_ord_chr)
qed

lemma letter_ord: "py_ord (py_chr ((k mod 26) + 65)) = k mod 26 + 65"
proof -
  have "0 \<le> k mod 26" "k mod 26 < 26" by simp_all
  then show ?thesis by (simp add: py_ord_chr)
qed

section \<open>Rotor: the offset substitution\<close>

lemma Rotor_init_length: "Rotor_init rt rg pos = Inr r \<Longrightarrow> length (mapping r) = 26"
  by (auto simp: Rotor_init_def named_rotor_def split: if_splits rotor_type.splits option.splits)

lemma encode_offset_rtl_eq:
  assumes "length (mapping r) = 26"
  shows "encode_offset_rtl r c = Inr (spec_encode_offset_rtl r c)"
proof -
  define k where "k = py_ord (position r) - 65 - ring r + 1"
  define i where "i = (py_ord c - 65 + k) mod 26"
  have i: "0 \<le> i" "i < 26" by (simp_all add: i_def)
  have s1: "spec_shift (spec_offset r) c = py_chr (i + 65)"
    by (simp add: spec_shift_def spec_offset_def i_def k_def mod_simps)
  have o: "py_ord (py_chr (i + 65)) = i + 65" using i by (simp add: py_ord_chr)
  have u: "is_upper_alpha (py_chr (i + 65))" using i by (simp add: is_upper_alpha_def o)
  have rtl: "encode_right_to_left r (py_chr (i + 65)) = Inr (mapping r ! nat i)"
    using i assms by (simp add: encode_right_to_left_def u o py_ord_A py_getitem_def)
  have s2: "spec_shift (- spec_offset r) d = py_chr ((py_ord d - 65 - k) mod 26 + 65)" for d
    by (simp add: spec_shift_def spec_offset_def k_def mod_simps)
  show ?thesis
    unfolding encode_offset_rtl_def spec_encode_offset_rtl_def s1 s2
    by (simp add: rotor_offset_def py_ord_A k_def[symmetric] i_def[symmetric] rtl o)
qed

lemma rotor_I_B_init: "Rotor_init (Named ''I'') 1 CHR ''B'' = Inr rotor_I_B"
  by (simp add: Rotor_init_def named_rotor_def is_upper_alpha_def py_ord_def rotor_I_B_def)

lemma rotor_I_B_J: "encode_offset_rtl rotor_I_B CHR ''J'' = Inr CHR ''M''"
  by (simp add: rotor_I_B_def encode_offset_rtl_def rotor_offset_def encode_right_to_left_def
      py_getitem_def is_upper_alpha_def py_ord_def py_chr_def char_of_def)

text \<open>
  C8.  Every rotor that \<open>Rotor.__init__\<close> builds computes, in \<open>encode_offset_rtl\<close>, the
  formula of the specification: offset = (index(position) - ring + 1) mod 26, the input
  index shifted by +offset, the permutation applied, the result index shifted by -offset,
  all modulo 26.  In particular rotor I with ring 1 and position B sends J to M.
\<close>

theorem encode_offset_rtl_formula:
  "Rotor_init rt rg pos = Inr r \<Longrightarrow>
     encode_offset_rtl r c = Inr (spec_encode_offset_rtl r c)
     \<and> (rt = Named ''I'' \<and> rg = 1 \<and> pos = CHR ''B'' \<longrightarrow>
          encode_offset_rtl r CHR ''J'' = Inr CHR ''M'')"
proof (intro conjI impI)
  assume a: "Rotor_init rt rg pos = Inr r"
  show "encode_offset_rtl r c = Inr (spec_encode_offset_rtl r c)"
    by (rule encode_offset_rtl_eq [OF Rotor_init_length [OF a]])
  assume "rt = Named ''I'' \<and> rg = 1 \<and> pos = CHR ''B''"
  with a have "r = rotor_I_B" by (simp add: rotor_I_B_init)
  then show "encode_offset_rtl r CHR ''J'' = Inr CHR ''M''" by (simp add: rotor_I_B_J)
qed

theorem encode_offset_rtl_formula_witness:
  "Rotor_init (Named ''I'') 1 CHR ''B'' = Inr rotor_I_B
   \<and> encode_offset_rtl rotor_I_B CHR ''J'' = Inr (spec_encode_offset_rtl rotor_I_B CHR ''J'')
   \<and> encode_offset_rtl rotor_I_B CHR ''J'' = Inr CHR ''M''"
  using encode_offset_rtl_formula [of "Named ''I''" 1 "CHR ''B''" rotor_I_B "CHR ''J''"]
    rotor_I_B_init
  by blast

section \<open>Stepping and rotor replacement\<close>

lemma double_step_machine_init:
  "Commercial_enigma_init [Named ''B'', Named ''I'', Named ''II'', Named ''III''] None (Some ''AEV'')
     = Inr double_step_machine"
  by (simp add: Commercial_enigma_init_def Rotor_init_def named_rotor_def is_upper_alpha_def
      py_ord_def check_reflector_def position_settings_def double_step_machine_def)

lemma py_ord_range: "0 \<le> py_ord c \<and> py_ord c < 256"
proof -
  have e: "(of_char c :: int) mod 256 = of_char c" by simp
  have "0 \<le> (of_char c :: int) mod 256 \<and> (of_char c :: int) mod 256 < 256"
    by (simp del: of_char_mod_256)
  then show ?thesis unfolding e py_ord_def .
qed

lemma succ_mod_256:
  assumes "0 \<le> x" "x < 256"
  shows "(x + 1) mod 256 \<noteq> (x::int)"
proof (cases "x = 255")
  case True
  then show ?thesis by simp
next
  case False
  with assms have "(x + 1) mod 256 = x + 1" by (simp add: mod_pos_pos_trivial)
  then show ?thesis by simp
qed

lemma py_chr_succ_neq: "py_chr (py_ord p + 1) \<noteq> p"
proof
  assume a: "py_chr (py_ord p + 1) = p"
  have "(py_ord p + 1) mod 256 = py_ord (py_chr (py_ord p + 1))"
    by (simp add: py_ord_def py_chr_def)
  also have "\<dots> = py_ord p" by (rule arg_cong [OF a])
  finally show False using succ_mod_256 [of "py_ord p"] py_ord_range [of p] by blast
qed

lemma position_advance:
  "position (advance_position r) =
     (if position r = CHR ''Z'' then CHR ''A'' else py_chr (py_ord (position r) + 1))"
  by (simp add: advance_position_def)

lemma advance_position_twice: "advance_position (advance_position r) \<noteq> advance_position r"
proof -
  define q where "q = advance_position r"
  have "position (advance_position q) \<noteq> position q"
    unfolding position_advance [of q] using py_chr_succ_neq [of "position q"] by simp
  then show ?thesis unfolding q_def by auto
qed

text \<open>
  C7.  When the rightmost rotor and the second-rightmost rotor both stand at their
  notches, one call of \<open>rotate\<close> replaces each of the three rightmost rotors by that
  rotor advanced once, and leaves every other rotor as it is; the second-rightmost rotor
  advanced once is not the rotor advanced twice.
\<close>

theorem rotate_double_step:
  assumes len: "length (rotors m) = 4 \<or> length (rotors m) = 5"
    and n: "n = length (rotors m)"
    and rot1: "Some [position (rotors m ! (n - 1))] = notch (rotors m ! (n - 1))"
    and rot2: "Some [position (rotors m ! (n - 2))] = notch (rotors m ! (n - 2))"
  shows "Commercial_enigma_rotate m =
           (Inr (), m\<lparr>rotors := (rotors m)
               [n - 1 := advance_position (rotors m ! (n - 1)),
                n - 2 := advance_position (rotors m ! (n - 2)),
                n - 3 := advance_position (rotors m ! (n - 3))]\<rparr>)
         \<and> advance_position (advance_position (rotors m ! (n - 2)))
             \<noteq> advance_position (rotors m ! (n - 2))"
proof
  from len n have "n = 4 \<or> n = 5" by simp
  then show "Commercial_enigma_rotate m =
           (Inr (), m\<lparr>rotors := (rotors m)
               [n - 1 := advance_position (rotors m ! (n - 1)),
                n - 2 := advance_position (rotors m ! (n - 2)),
                n - 3 := advance_position (rotors m ! (n - 3))]\<rparr>)"
    using rot1 rot2 n
    by (auto simp: Commercial_enigma_rotate_def Let_def)
  show "advance_position (advance_position (rotors m ! (n - 2)))
             \<noteq> advance_position (rotors m ! (n - 2))"
    by (rule advance_position_twice)
qed

theorem rotate_double_step_witness:
  "Commercial_enigma_init [Named ''B'', Named ''I'', Named ''II'', Named ''III''] None (Some ''AEV'')
     = Inr double_step_machine
   \<and> map position (rotors double_step_machine) = ''AAEV''
   \<and> map position (rotors (snd (Commercial_enigma_rotate double_step_machine))) = ''ABFW''
   \<and> fst (Commercial_enigma_rotate double_step_machine) = Inr ()"
proof -
  have len: "length (rotors double_step_machine) = 4 \<or> length (rotors double_step_machine) = 5"
    by (simp add: double_step_machine_def)
  have n: "(4::nat) = length (rotors double_step_machine)"
    by (simp add: double_step_machine_def)
  have rot1: "Some [position (rotors double_step_machine ! (4 - 1))]
                = notch (rotors double_step_machine ! (4 - 1))"
    by (simp add: double_step_machine_def)
  have rot2: "Some [position (rotors double_step_machine ! (4 - 2))]
                = notch (rotors double_step_machine ! (4 - 2))"
    by (simp add: double_step_machine_def)
  note r = rotate_double_step [OF len n rot1 rot2, THEN conjunct1]
  have p: "map position (rotors (snd (Commercial_enigma_rotate double_step_machine))) = ''ABFW''"
    unfolding r
    by (simp add: double_step_machine_def advance_position_def py_ord_def py_chr_def char_of_def)
  have q: "map position (rotors double_step_machine) = ''AAEV''"
    by (simp add: double_step_machine_def)
  show ?thesis
    using double_step_machine_init p q r by simp
qed

text \<open>
  C10.  \<open>swap_rotors\<close> of both machines raises TypeError for every list of four or
  five rotor specifications, since its guard takes \<open>len\<close> of the integer
  \<open>ring_length\<close>; for no input at all does it return normally or change the machine.
\<close>

theorem swap_rotors_raises:
  "(length rts = 4 \<or> length rts = 5 \<longrightarrow>
      swap_rotors m rts = (Inl TypeError, m) \<and> advanced_swap_rotors ma rts = (Inl TypeError, ma))
   \<and> fst (swap_rotors m rts) \<noteq> Inr () \<and> snd (swap_rotors m rts) = m
   \<and> fst (advanced_swap_rotors ma rts) \<noteq> Inr () \<and> snd (advanced_swap_rotors ma rts) = ma"
  by (simp add: swap_rotors_def advanced_swap_rotors_def len_of_int_def)

theorem swap_rotors_raises_witness:
  "swap_rotors double_step_machine [Named ''B'', Named ''I'', Named ''II'', Named ''III'']
     = (Inl TypeError, double_step_machine)
   \<and> swap_rotors double_step_machine [Named ''B'', Named ''I'', Named ''II'', Named ''III'', Named ''IV'']
     = (Inl TypeError, double_step_machine)"
  using swap_rotors_raises [of "[Named ''B'', Named ''I'', Named ''II'', Named ''III'']" double_step_machine]
    swap_rotors_raises [of "[Named ''B'', Named ''I'', Named ''II'', Named ''III'', Named ''IV'']" double_step_machine]
  by simp

section \<open>Plugboard\<close>

lemma PlugLead_init_wf: "PlugLead_init s = Inr pl \<Longrightarrow> wf_lead pl"
  by (auto simp: PlugLead_init_def wf_lead_def str_upper_alpha_def min_def max_def list_all_length
      split: if_splits)

lemma lead_AB_init: "PlugLead_init ''AB'' = Inr lead_AB"
  by (simp add: PlugLead_init_def str_upper_alpha_def is_upper_alpha_def py_ord_def lead_AB_def
      min_def max_def less_eq_char_def)

lemma PlugLead_encode_other:
  assumes "wf_lead pl" "is_upper_alpha c"
  shows "PlugLead_encode pl c =
           Inr (if c = first_letter pl then last_letter pl
                else if c = last_letter pl then first_letter pl else c)"
proof -
  have "{first_letter pl, last_letter pl} - {first_letter pl} = {last_letter pl}"
       "{first_letter pl, last_letter pl} - {last_letter pl} = {first_letter pl}"
    using assms(1) by (auto simp: wf_lead_def)
  then show ?thesis
    using assms by (auto simp: PlugLead_encode_def wf_lead_def next_iter_def)
qed

lemma Plugboard_encode_loop_partner:
  assumes "list_all wf_lead cs" "disjoint_leads cs" "cs \<noteq> []" "is_upper_alpha c"
  shows "Plugboard_encode_loop cs i (i + length cs) c = Inr (plug_partner cs c)"
  using assms
proof (induction cs arbitrary: i)
  case Nil
  then show ?case by simp
next
  case (Cons pl pls)
  have wf: "wf_lead pl" using Cons.prems(1) by simp
  show ?case
  proof (cases "c \<in> pair pl")
    case True
    then show ?thesis
      using wf Cons.prems(4) by (auto simp: PlugLead_encode_other wf_lead_def)
  next
    case False
    then have nf: "c \<noteq> first_letter pl" "c \<noteq> last_letter pl"
      using wf by (auto simp: wf_lead_def)
    show ?thesis
    proof (cases "pls = []")
      case True
      then show ?thesis
        using wf Cons.prems(4) nf False by (simp add: PlugLead_encode_other)
    next
      case ne: False
      have "Plugboard_encode_loop pls (i + 1) (i + 1 + length pls) c = Inr (plug_partner pls c)"
        using Cons.IH [of "i + 1"] Cons.prems ne by simp
      then show ?thesis
        using False nf ne by simp
    qed
  qed
qed

lemma Plugboard_encode_nonempty:
  assumes "board_ok b" "connections b \<noteq> []" "is_upper_alpha c"
  shows "Plugboard_encode b c = Inr (plug_partner (connections b) c)"
  using Plugboard_encode_loop_partner [of "connections b" c 0] assms
  by (simp add: Plugboard_encode_def board_ok_def)

lemma Plugboard_encode_empty: "connections b = [] \<Longrightarrow> Plugboard_encode b c = Inl ValueError"
  by (simp add: Plugboard_encode_def)

lemma plug_partner_upper:
  "list_all wf_lead cs \<Longrightarrow> is_upper_alpha c \<Longrightarrow> is_upper_alpha (plug_partner cs c)"
  by (induction cs) (auto simp: wf_lead_def)

lemma plug_partner_notin:
  "list_all (\<lambda>q. c \<notin> pair q) cs \<Longrightarrow> list_all wf_lead cs \<Longrightarrow> plug_partner cs c = c"
  by (induction cs) (auto simp: wf_lead_def)

lemma plug_partner_involution:
  "list_all wf_lead cs \<Longrightarrow> disjoint_leads cs \<Longrightarrow> plug_partner cs (plug_partner cs c) = c"
proof (induction cs)
  case Nil
  then show ?case by simp
next
  case (Cons pl pls)
  have wf: "wf_lead pl" using Cons.prems(1) by simp
  have dis: "list_all (\<lambda>q. pair pl \<inter> pair q = {}) pls" using Cons.prems(2) by simp
  have wfs: "list_all wf_lead pls" using Cons.prems(1) by simp
  have out: "plug_partner pls x \<notin> pair pl" if "x \<notin> pair pl" for x
    using dis wfs that
  proof (induction pls)
    case Nil
    then show ?case by simp
  next
    case (Cons q qs)
    then show ?case by (auto simp: wf_lead_def)
  qed
  show ?case
  proof (cases "c \<in> pair pl")
    case True
    then show ?thesis using wf by (auto simp: wf_lead_def)
  next
    case False
    then have "plug_partner pls c \<notin> pair pl" by (rule out)
    then show ?thesis using False wf Cons by (auto simp: wf_lead_def)
  qed
qed

lemma lead_AC_init: "PlugLead_init ''AC'' = Inr lead_AC"
  by (simp add: PlugLead_init_def str_upper_alpha_def is_upper_alpha_def py_ord_def lead_AC_def
      min_def max_def less_eq_char_def)

lemma board_AB_init: "Plugboard_init (Some [''AB'']) = Inr board_AB"
  by (simp add: Plugboard_init_def lead_AB_init Plugboard_add_def lead_in_def connection_limit_def
      board_AB_def) (simp add: lead_AB_def insert_commute)

lemma empty_board_init: "Plugboard_init None = Inr empty_board" "Plugboard_init (Some []) = Inr empty_board"
  by (simp_all add: Plugboard_init_def empty_board_def)

lemma lead_in_occupied:
  assumes "board_ok b" "wf_lead pl" "lead_in pl (connections b)"
  shows "first_letter pl \<in> occupied_letters b \<and> last_letter pl \<in> occupied_letters b"
proof -
  from assms(3) obtain x where x: "x \<in> set (connections b)" "pair x = pair pl"
    by (auto simp: lead_in_def list_ex_iff PlugLead_eq_def)
  with assms(1) have "pair pl \<subseteq> occupied_letters b"
    by (auto simp: board_ok_def list_all_iff)
  then show ?thesis using assms(2) by (auto simp: wf_lead_def)
qed

lemma Plugboard_add_connected:
  assumes "board_ok b" "wf_lead pl" "lead_in pl (connections b)"
  shows "Plugboard_add b pl = (Inl AttributeError, b)"
  using lead_in_occupied [OF assms] by (simp add: Plugboard_add_def)

lemma AdvancedPlugboard_add_connected:
  assumes "board_ok b" "wf_lead pl" "lead_in pl (connections b)"
  shows "AdvancedPlugboard_add b pl = (Inl ValueError, b)"
  using lead_in_occupied [OF assms] by (simp add: AdvancedPlugboard_add_def)

lemma Plugboard_remove_occupied:
  "occupied_letters (snd (Plugboard_remove b pl)) = occupied_letters b"
  by (simp add: Plugboard_remove_def)

lemma Plugboard_add_occupied_mono:
  "occupied_letters b \<subseteq> occupied_letters (snd (Plugboard_add b pl))"
  by (auto simp: Plugboard_add_def Let_def)

lemma add_leads_occupied_mono:
  "occupied_letters b \<subseteq> occupied_letters (snd (add_leads b leads))"
proof (induction leads arbitrary: b)
  case Nil
  then show ?case by simp
next
  case (Cons l ls)
  show ?case
  proof (cases "PlugLead_init l")
    case (Inl e)
    then show ?thesis by simp
  next
    case (Inr pl)
    obtain res b' where r: "Plugboard_add b pl = (res, b')" by (cases "Plugboard_add b pl")
    have m: "occupied_letters b \<subseteq> occupied_letters b'"
      using Plugboard_add_occupied_mono [of b pl] r by simp
    show ?thesis
    proof (cases res)
      case (Inl e)
      then show ?thesis using Inr r m by simp
    next
      case Inr2: (Inr w)
      have "occupied_letters b' \<subseteq> occupied_letters (snd (add_leads b' ls))" by (rule Cons.IH)
      then show ?thesis using Inr Inr2 r m by auto
    qed
  qed
qed

lemma Plugboard_reset_occupied:
  "occupied_letters b \<subseteq> occupied_letters (snd (Plugboard_reset b leads))"
  using add_leads_occupied_mono [of "b\<lparr>connections := []\<rparr>"]
  by (cases leads) (auto simp: Plugboard_reset_def Let_def)

lemma Plugboard_add_reused:
  assumes "first_letter pl \<in> occupied_letters b \<or> last_letter pl \<in> occupied_letters b"
  shows "Plugboard_add b pl =
           (if first_letter pl \<in> occupied_letters b \<and> last_letter pl \<in> occupied_letters b
            then (Inl AttributeError, b) else (Inl ValueError, b))"
  using assms by (auto simp: Plugboard_add_def)

lemma remove_then_add:
  "Plugboard_remove board_AB lead_AB = (Inr (), board_AB_removed)"
  "Plugboard_add board_AB_removed lead_AB = (Inl AttributeError, board_AB_removed)"
  "Plugboard_add board_AB_removed lead_AC = (Inl ValueError, board_AB_removed)"
  by (simp_all add: Plugboard_remove_def Plugboard_add_def board_AB_def board_AB_removed_def
      lead_in_def PlugLead_eq_def lead_AB_def lead_AC_def)

lemma reset_then_add:
  "Plugboard_reset board_AB None = (Inr (), board_AB_removed)"
  "Plugboard_reset board_AB (Some [''AB'']) = (Inl AttributeError, board_AB_removed)"
   apply (simp add: Plugboard_reset_def board_AB_def board_AB_removed_def)
  apply (simp add: Plugboard_reset_def lead_AB_init)
  apply (simp add: Plugboard_add_def board_AB_def board_AB_removed_def lead_AB_def)
  done

lemma add_connected_example:
  "lead_in lead_AB (connections board_AB)"
  "Plugboard_add board_AB lead_AB = (Inl AttributeError, board_AB)"
  "AdvancedPlugboard_add board_AB lead_AB = (Inl ValueError, board_AB)"
  by (simp_all add: Plugboard_add_def AdvancedPlugboard_add_def board_AB_def lead_in_def
          PlugLead_eq_def lead_AB_def)

lemma disjoint_leads_snoc:
  "disjoint_leads (cs @ [pl]) = (disjoint_leads cs \<and> list_all (\<lambda>q. pair q \<inter> pair pl = {}) cs)"
  by (induction cs) auto

lemma Plugboard_add_ok:
  assumes "board_ok b" "wf_lead pl"
  shows "board_ok (snd (Plugboard_add b pl))"
proof (cases "first_letter pl \<in> occupied_letters b \<or> last_letter pl \<in> occupied_letters b")
  case True
  then show ?thesis using assms(1) by (auto simp: Plugboard_add_def)
next
  case False
  have p: "pair pl = {first_letter pl, last_letter pl}" using assms(2) by (simp add: wf_lead_def)
  have dis: "list_all (\<lambda>q. pair q \<inter> pair pl = {}) (connections b)"
    using assms(1) False p by (auto simp: board_ok_def list_all_iff)
  show ?thesis
    using assms False dis
    by (auto simp: Plugboard_add_def Let_def board_ok_def disjoint_leads_snoc list_all_iff)
qed

lemma add_leads_ok: "board_ok b \<Longrightarrow> board_ok (snd (add_leads b leads))"
proof (induction leads arbitrary: b)
  case Nil
  then show ?case by simp
next
  case (Cons l ls)
  show ?case
  proof (cases "PlugLead_init l")
    case (Inl e)
    then show ?thesis using Cons.prems by simp
  next
    case (Inr pl)
    obtain res b' where r: "Plugboard_add b pl = (res, b')" by (cases "Plugboard_add b pl")
    have ok: "board_ok b'"
      using Plugboard_add_ok [OF Cons.prems PlugLead_init_wf [OF Inr]] r by simp
    show ?thesis
    proof (cases res)
      case (Inl e)
      then show ?thesis using Inr r ok by simp
    next
      case Inr2: (Inr w)
      then show ?thesis using Inr r Cons.IH [OF ok] by simp
    qed
  qed
qed

lemma Plugboard_init_ok: "Plugboard_init leads = Inr b \<Longrightarrow> board_ok b"
proof (cases leads)
  case None
  assume "Plugboard_init leads = Inr b"
  with None show ?thesis by (auto simp: Plugboard_init_def board_ok_def)
next
  case (Some ls)
  assume a: "Plugboard_init leads = Inr b"
  have e: "board_ok \<lparr>connections = [], occupied_letters = {}\<rparr>" by (simp add: board_ok_def)
  have "board_ok (snd (add_leads \<lparr>connections = [], occupied_letters = {}\<rparr> ls))"
    by (rule add_leads_ok [OF e])
  with a Some show ?thesis
    by (auto simp: Plugboard_init_def split: prod.splits sum.splits)
qed

lemma Plugboard_remove_ok: "board_ok b \<Longrightarrow> board_ok (snd (Plugboard_remove b pl))"
proof -
  have d: "disjoint_leads cs \<Longrightarrow> disjoint_leads (filter P cs)" for cs :: "PlugLead list" and P
    by (induction cs) (auto simp: list_all_iff)
  assume "board_ok b"
  then show ?thesis
    by (auto simp: Plugboard_remove_def board_ok_def d list_all_iff)
qed


text \<open>
  C5.  Adding a lead equal to one already connected: the board built from the lead AB
  holds AB, and \<open>add\<close> of AB raises (AttributeError, from the message of the intended
  ValueError) instead of warning; the guard on occupied letters runs before the test for
  a connected lead.
\<close>

theorem add_connected_lead_raises:
  "PlugLead_init ''AB'' = Inr lead_AB
   \<and> Plugboard_init (Some [''AB'']) = Inr board_AB
   \<and> lead_in lead_AB (connections board_AB)
   \<and> Plugboard_add board_AB lead_AB = (Inl AttributeError, board_AB)"
  by (simp add: lead_AB_init board_AB_init add_connected_example)

text \<open>
  C6.  On a board with no connected lead, built with no lead list or with an empty one,
  \<open>encode\<close> of the symbol A raises ValueError instead of returning A.
\<close>

theorem encode_on_empty_board:
  "Plugboard_init None = Inr empty_board
   \<and> Plugboard_init (Some []) = Inr empty_board
   \<and> connections empty_board = []
   \<and> Plugboard_encode empty_board CHR ''A'' = Inl ValueError"
  by (simp add: empty_board_init) (simp add: empty_board_def Plugboard_encode_def)

text \<open>
  C9.  After \<open>remove\<close> of the lead AB, or \<open>reset\<close>, no lead is connected and A and
  B stay occupied; adding AB again raises AttributeError, not ValueError, while adding AC
  (one occupied letter) raises ValueError.
\<close>

theorem add_after_remove_raises:
  "Plugboard_remove board_AB lead_AB = (Inr (), board_AB_removed)
   \<and> Plugboard_reset board_AB None = (Inr (), board_AB_removed)
   \<and> connections board_AB_removed = []
   \<and> occupied_letters board_AB_removed = occupied_letters board_AB
   \<and> Plugboard_add board_AB_removed lead_AB = (Inl AttributeError, board_AB_removed)
   \<and> Plugboard_add board_AB_removed lead_AC = (Inl ValueError, board_AB_removed)"
  by (simp add: remove_then_add reset_then_add) (simp add: board_AB_removed_def board_AB_def)

section \<open>Alphabet and list search\<close>

lemma abc_length: "length abc = 26"
  by (simp add: abc_def)

lemma abc_nth: "i < 26 \<Longrightarrow> abc ! i = py_chr (65 + int i)"
  by (simp add: abc_def)

lemma abc_ord: "i < 26 \<Longrightarrow> py_ord (abc ! i) = 65 + int i"
  by (simp add: abc_nth py_ord_chr)

lemma abc_upper: "i < 26 \<Longrightarrow> is_upper_alpha (abc ! i)"
  by (simp add: is_upper_alpha_def abc_ord)

lemma abc_distinct: "distinct abc"
proof -
  have "inj_on (\<lambda>i. py_chr (65 + int i)) {0..<26}"
  proof (rule inj_onI)
    fix x y assume "x \<in> {0..<26}" "y \<in> {0..<26}" "py_chr (65 + int x) = py_chr (65 + int y)"
    then have "py_ord (py_chr (65 + int x)) = py_ord (py_chr (65 + int y))" by simp
    with \<open>x \<in> {0..<26}\<close> \<open>y \<in> {0..<26}\<close> show "x = y" by (simp add: py_ord_chr)
  qed
  then show ?thesis by (simp add: abc_def distinct_map)
qed

lemma upper_abc: "is_upper_alpha c \<Longrightarrow> \<exists>i<26. c = abc ! i"
proof -
  assume u: "is_upper_alpha c"
  define i where "i = nat (py_ord c - 65)"
  have "i < 26" "py_ord c = 65 + int i" using u by (auto simp: is_upper_alpha_def i_def)
  then have "c = abc ! i" by (metis abc_nth py_chr_ord)
  with \<open>i < 26\<close> show ?thesis by blast
qed

lemma upper_iff_abc: "is_upper_alpha c = (c \<in> set abc)"
  using upper_abc abc_upper by (auto simp: in_set_conv_nth abc_length)

lemma list_index_props:
  assumes "x \<in> set xs"
  shows "\<exists>k. list_index xs x = Inr k \<and> k < length xs \<and> xs ! k = x
             \<and> (\<forall>j < k. xs ! j \<noteq> x)"
proof -
  define k where "k = length (takeWhile (\<lambda>y. y \<noteq> x) xs)"
  have lt: "k < length xs"
  proof (rule ccontr)
    assume "\<not> k < length xs"
    then have "k = length xs" using length_takeWhile_le [of "\<lambda>y. y \<noteq> x" xs] by (simp add: k_def)
    then have "takeWhile (\<lambda>y. y \<noteq> x) xs = xs"
      using takeWhile_eq_take [of "\<lambda>y. y \<noteq> x" xs] by (simp add: k_def)
    then show False using assms by auto
  qed
  have "\<not> (xs ! k \<noteq> x)" unfolding k_def using lt [unfolded k_def] by (rule nth_length_takeWhile)
  moreover have "\<forall>j < k. xs ! j \<noteq> x"
    unfolding k_def by (metis (mono_tags, lifting) nth_mem set_takeWhileD takeWhile_nth)
  ultimately show ?thesis using assms lt by (simp add: list_index_def k_def)
qed

lemma list_index_distinct:
  assumes "distinct xs" "j < length xs"
  shows "list_index xs (xs ! j) = Inr j"
proof -
  have "xs ! j \<in> set xs" using assms(2) by simp
  from list_index_props [OF this] obtain k where
    k: "list_index xs (xs ! j) = Inr k" "k < length xs" "xs ! k = xs ! j" by blast
  with assms have "k = j" by (simp add: nth_eq_iff_index_eq)
  with k show ?thesis by simp
qed

lemma list_index_absent: "x \<notin> set xs \<Longrightarrow> list_index xs x = Inl ValueError"
  by (simp add: list_index_def)

section \<open>Rotor: valid_reflector\<close>

lemma rtl_abc:
  assumes "length (mapping r) = 26" "i < 26"
  shows "encode_right_to_left r (abc ! i) = Inr (mapping r ! i)"
  using assms by (simp add: encode_right_to_left_def abc_upper abc_ord py_ord_A py_getitem_def)

lemma rtl_Inr:
  assumes "length (mapping r) = 26"
  shows "(encode_right_to_left r d = Inr c) = (\<exists>j<26. d = abc ! j \<and> mapping r ! j = c)"
proof
  assume a: "encode_right_to_left r d = Inr c"
  then have "is_upper_alpha d" by (auto simp: encode_right_to_left_def split: if_splits)
  then obtain j where j: "j < 26" "d = abc ! j" using upper_abc by blast
  with a assms have "mapping r ! j = c" by (simp add: rtl_abc)
  with j show "\<exists>j<26. d = abc ! j \<and> mapping r ! j = c" by blast
next
  assume "\<exists>j<26. d = abc ! j \<and> mapping r ! j = c"
  then show "encode_right_to_left r d = Inr c" using assms by (auto simp: rtl_abc)
qed

lemma involution_on_iff:
  assumes "length (mapping r) = 26"
  shows "involution_on r =
           (\<forall>i<26. \<exists>j<26. mapping r ! i = abc ! j \<and> mapping r ! j = abc ! i)"
proof -
  have "involution_on r = (\<forall>i<26. encode_right_to_left r (mapping r ! i) = Inr (abc ! i))"
    using assms by (simp add: involution_on_def list_all_length abc_length rtl_abc)
  then show ?thesis using assms by (simp add: rtl_Inr)
qed

lemma valid_reflector_loop_True:
  "(valid_reflector_loop dic rest = Inr True) =
     (\<forall>kv \<in> set rest. \<exists>j. list_index (map snd dic) (fst kv) = Inr j \<and> snd kv = map fst dic ! j)"
proof (induction rest)
  case Nil
  then show ?case by simp
next
  case (Cons kv rest)
  obtain key v where kv: "kv = (key, v)" by (cases kv)
  show ?case
  proof (cases "list_index (map snd dic) key")
    case (Inl e)
    then show ?thesis using kv by simp
  next
    case (Inr j)
    then show ?thesis using kv Cons.IH by auto
  qed
qed

lemma zip_abc_ball:
  assumes "length m = 26"
  shows "(\<forall>kv \<in> set (zip abc m). P (fst kv) (snd kv)) = (\<forall>i<26. P (abc ! i) (m ! i))"
  using assms by (auto simp: set_zip abc_length)

lemma valid_reflector_iff_invol:
  assumes len: "length (mapping r) = 26"
  shows "(valid_reflector r = Inr True) = (notch r = None \<and> involution_on r)"
proof (cases "notch r")
  case (Some a)
  then show ?thesis by (simp add: valid_reflector_def)
next
  case None
  define m where "m = mapping r"
  have lm: "length m = 26" using len by (simp add: m_def)
  have s: "map snd (zip abc m) = m" "map fst (zip abc m) = abc"
    using lm by (simp_all add: abc_length)
  have "valid_reflector r = valid_reflector_loop (zip abc m) (zip abc m)"
    using None by (simp add: valid_reflector_def Let_def m_def)
  then have L: "(valid_reflector r = Inr True) =
             (\<forall>i<26. \<exists>j. list_index m (abc ! i) = Inr j \<and> m ! i = abc ! j)"
    using zip_abc_ball [OF lm, of "\<lambda>k v. \<exists>j. list_index m k = Inr j \<and> v = abc ! j"]
    by (simp only: valid_reflector_loop_True s)
  have I: "involution_on r = (\<forall>i<26. \<exists>j<26. m ! i = abc ! j \<and> m ! j = abc ! i)"
    using involution_on_iff [OF len] by (simp add: m_def)
  have AB: "(\<forall>i<26. \<exists>j. list_index m (abc ! i) = Inr j \<and> m ! i = abc ! j)
          = (\<forall>i<26. \<exists>j<26. m ! i = abc ! j \<and> m ! j = abc ! i)" (is "?A = ?B")
  proof
    assume A: ?A
    show ?B
    proof (intro allI impI)
      fix i assume i: "i < (26::nat)"
      with A obtain j where j: "list_index m (abc ! i) = Inr j" "m ! i = abc ! j" by blast
      have "abc ! i \<in> set m"
        using j(1) by (auto simp: list_index_def split: if_splits)
      from list_index_props [OF this] j(1) have "j < length m" "m ! j = abc ! i" by auto
      with j(2) lm show "\<exists>j<26. m ! i = abc ! j \<and> m ! j = abc ! i" by auto
    qed
  next
    assume B: ?B
    have inj: "a = b" if "a < 26" "b < 26" "m ! a = m ! b" for a b
    proof -
      from B [rule_format, OF that(1)] obtain ja where
        ja: "ja < 26" "m ! a = abc ! ja" "m ! ja = abc ! a" by blast
      from B [rule_format, OF that(2)] obtain jb where
        jb: "jb < 26" "m ! b = abc ! jb" "m ! jb = abc ! b" by blast
      have "abc ! ja = abc ! jb" using ja(2) jb(2) that(3) by simp
      then have "ja = jb"
        using abc_distinct ja(1) jb(1) by (simp add: nth_eq_iff_index_eq abc_length)
      then have "abc ! a = abc ! b" using ja(3) jb(3) by simp
      then show ?thesis
        using abc_distinct that(1,2) by (simp add: nth_eq_iff_index_eq abc_length)
    qed
    have dm: "distinct m"
      unfolding distinct_conv_nth lm using inj by blast
    show ?A
    proof (intro allI impI)
      fix i assume i: "i < (26::nat)"
      with B obtain j where j: "j < 26" "m ! i = abc ! j" "m ! j = abc ! i" by blast
      have "list_index m (m ! j) = Inr j" using dm j(1) lm by (simp add: list_index_distinct)
      with j show "\<exists>j. list_index m (abc ! i) = Inr j \<and> m ! i = abc ! j" by auto
    qed
  qed
  show ?thesis by (simp only: L I AB None simp_thms)
qed

lemma identity_rotor_init:
  "Rotor_init (NoNotch ''ABCDEFGHIJKLMNOPQRSTUVWXYZ'') 1 CHR ''A'' = Inr identity_rotor"
  by (simp add: Rotor_init_def is_upper_alpha_def py_ord_def identity_rotor_def)

lemma rotor_B_init: "Rotor_init (Named ''B'') 1 CHR ''A'' = Inr rotor_B"
  by (simp add: Rotor_init_def named_rotor_def is_upper_alpha_def py_ord_def rotor_B_def)

lemma identity_rotor_valid: "valid_reflector identity_rotor = Inr True"
  by code_simp

lemma identity_rotor_A: "encode_right_to_left identity_rotor CHR ''A'' = Inr CHR ''A''"
  by code_simp

lemma identity_rotor_fixed: "\<not> fixed_point_free identity_rotor"
  by code_simp

lemma rotor_B_valid: "valid_reflector rotor_B = Inr True"
  by code_simp


text \<open>
  C3, as stated, fails: the identity wiring has no notch and \<open>valid_reflector\<close> returns
  true for it, although every symbol maps to itself.
\<close>

theorem valid_reflector_identity_counterexample:
  "Rotor_init (NoNotch ''ABCDEFGHIJKLMNOPQRSTUVWXYZ'') 1 CHR ''A'' = Inr identity_rotor
   \<and> valid_reflector identity_rotor = Inr True
   \<and> \<not> fixed_point_free identity_rotor
   \<and> encode_right_to_left identity_rotor CHR ''A'' = Inr CHR ''A''"
  by (simp add: identity_rotor_init identity_rotor_valid identity_rotor_fixed identity_rotor_A)

text \<open>
  C3, amended.  For every rotor that \<open>Rotor.__init__\<close> builds, \<open>valid_reflector\<close>
  returns true if and only if the rotor has no notch and its mapping is an involution:
  applying the mapping twice returns every symbol to itself.  Fixed points are not
  examined.
\<close>

theorem valid_reflector_iff_involution:
  "Rotor_init rt rg pos = Inr r \<Longrightarrow>
     (valid_reflector r = Inr True) = (notch r = None \<and> involution_on r)"
  by (rule valid_reflector_iff_invol [OF Rotor_init_length])

theorem valid_reflector_iff_involution_witness:
  "Rotor_init (Named ''B'') 1 CHR ''A'' = Inr rotor_B
   \<and> valid_reflector rotor_B = Inr True
   \<and> notch rotor_B = None
   \<and> involution_on rotor_B"
  using valid_reflector_iff_involution [of "Named ''B''" 1 "CHR ''A''" rotor_B]
    rotor_B_init rotor_B_valid
  by simp

section \<open>Reading the tables of the advanced machine\<close>

lemma length_concat_map_uniform:
  "(\<forall>x\<in>set xs. length (f x) = n) \<Longrightarrow> length (concat (map f xs)) = length xs * n"
  by (induction xs) auto

lemma nth_concat_map_uniform:
  assumes "\<forall>x\<in>set xs. length (f x) = n" "k < length xs * n"
  shows "concat (map f xs) ! k = f (xs ! (k div n)) ! (k mod n)"
  using assms
proof (induction xs arbitrary: k)
  case Nil
  then show ?case by simp
next
  case (Cons x xs)
  have n: "0 < n" using Cons.prems(2) by (cases n) auto
  have lx: "length (f x) = n" using Cons.prems(1) by simp
  show ?case
  proof (cases "k < n")
    case True
    then show ?thesis using lx by (simp add: nth_append)
  next
    case False
    then have k: "n \<le> k" by simp
    then have d: "(k - n) div n = k div n - 1" "(k - n) mod n = k mod n"
      using n le_div_geq [OF n k] by (simp_all add: le_mod_geq)
    have pos: "0 < k div n" using k n by (simp add: div_greater_zero_iff)
    have "k - n < length xs * n" using Cons.prems(2) k by simp
    then have "concat (map f xs) ! (k - n) = f (xs ! ((k - n) div n)) ! ((k - n) mod n)"
      using Cons.IH Cons.prems(1) by simp
    then show ?thesis using False lx d pos by (simp add: nth_append nth_Cons')
  qed
qed

lemma triples_length: "length (triples xs) = length xs * (length xs * length xs)"
  by (simp add: triples_def length_concat_map_uniform [where n = "length xs * length xs"]
      length_concat_map_uniform [where n = "length xs"])

lemma triples_nth:
  assumes "k < length xs * (length xs * length xs)"
  shows "triples xs ! k =
           [xs ! (k div (length xs * length xs)), xs ! (k mod (length xs * length xs) div length xs),
            xs ! (k mod (length xs * length xs) mod length xs)]"
proof -
  let ?n = "length xs"
  let ?g = "\<lambda>a. concat (map (\<lambda>b. map (\<lambda>c. [a, b, c]) xs) xs)"
  have lg: "\<forall>a\<in>set xs. length (?g a) = ?n * ?n"
    by (simp add: length_concat_map_uniform [where n = "?n"])
  have n: "0 < ?n" using assms by (cases xs) auto
  have r: "k mod (?n * ?n) < ?n * ?n" using n by simp
  have "triples xs ! k = ?g (xs ! (k div (?n * ?n))) ! (k mod (?n * ?n))"
    unfolding triples_def by (rule nth_concat_map_uniform [OF lg]) (use assms in simp)
  also have "\<dots> = map (\<lambda>c. [xs ! (k div (?n * ?n)), xs ! (k mod (?n * ?n) div ?n), c]) xs
                     ! (k mod (?n * ?n) mod ?n)"
    by (rule nth_concat_map_uniform [where n = "?n"]) (use r in simp_all)
  also have "\<dots> = [xs ! (k div (?n * ?n)), xs ! (k mod (?n * ?n) div ?n),
                     xs ! (k mod (?n * ?n) mod ?n)]"
    using n by simp
  finally show ?thesis .
qed

lemma ring_perms_triples: "ring_perms = triples (map int [1..<37])"
  by (simp only: ring_perms_def triples_def)

lemma position_perms_triples: "position_perms = triples lineup"
  by (simp only: position_perms_def triples_def)

lemma lineup_length: "length lineup = 36"
  by (simp add: lineup_def)

lemma ring_perms_getitem_code [code]:
  "ring_perms_getitem k =
     (if k < 46656
      then Inr [1 + int (k div 1296), 1 + int (k mod 1296 div 36), 1 + int (k mod 1296 mod 36)]
      else Inl IndexError)"
proof (cases "k < 46656")
  case True
  have l: "length (map int [1..<37]) = 36" by simp
  have r: "k div 1296 < 36" "k mod 1296 div 36 < 36" "k mod 1296 mod 36 < 36"
    using True by (simp_all add: less_mult_imp_div_less)
  have "ring_perms ! k = [map int [1..<37] ! (k div 1296), map int [1..<37] ! (k mod 1296 div 36),
                          map int [1..<37] ! (k mod 1296 mod 36)]"
    unfolding ring_perms_triples using triples_nth [of k "map int [1..<37]"] True
    by (simp only: l) simp
  then have "ring_perms ! k = [1 + int (k div 1296), 1 + int (k mod 1296 div 36), 1 + int (k mod 1296 mod 36)]"
    using r by (simp add: nth_upt)
  moreover have "length ring_perms = 46656"
    unfolding ring_perms_triples by (simp only: triples_length l)
  ultimately show ?thesis using True by (simp add: ring_perms_getitem_def py_getitem_def)
next
  case False
  have l: "length (map int [1..<37]) = 36" by simp
  have "length ring_perms = 46656"
    unfolding ring_perms_triples by (simp only: triples_length l)
  then show ?thesis using False by (simp add: ring_perms_getitem_def py_getitem_def)
qed

lemma position_perms_getitem_code [code]:
  "position_perms_getitem k =
     (if k < 46656
      then Inr [lineup ! (k div 1296), lineup ! (k mod 1296 div 36), lineup ! (k mod 1296 mod 36)]
      else Inl IndexError)"
proof -
  have len: "length position_perms = 46656"
    unfolding position_perms_triples by (simp only: triples_length lineup_length)
  show ?thesis
  proof (cases "k < 46656")
    case True
    have "position_perms ! k = [lineup ! (k div 1296), lineup ! (k mod 1296 div 36),
                                lineup ! (k mod 1296 mod 36)]"
      unfolding position_perms_triples using triples_nth [of k lineup] True
      by (simp only: lineup_length) simp
    then show ?thesis using True len by (simp add: position_perms_getitem_def py_getitem_def)
  next
    case False
    then show ?thesis using len by (simp add: position_perms_getitem_def py_getitem_def)
  qed
qed

end
